theory Spec2Isabelle
  imports Complex_Main "HOL-Library.AList"
begin

section \<open>JavaScript values\<close>

text \<open>
  The module \<open>src/lib/api.js\<close> works on untyped request parameters and on the records the
  search backend returns. Both are JSON-like JavaScript values. A number is an IEEE double;
  it is modelled by the rational it denotes, with \<open>NaN\<close> and the two infinities apart
  (the two zeros are one value: they compare equal and are both falsy). An object is an
  association list in insertion order; a string is a list of characters with a code
  below 256.
\<close>

datatype jsnum = NaN | NegInf | Fin rat | PosInf

datatype jsval =
    JUndefined
  | JNull
  | JBool bool
  | JNum jsnum
  | JStr string
  | JArr "jsval list"
  | JObj "(string \<times> jsval) list"

type_synonym obj = "(string \<times> jsval) list"

text \<open>\<open>a < b\<close> on numbers: false as soon as one side is \<open>NaN\<close>.\<close>

fun num_lt :: "jsnum \<Rightarrow> jsnum \<Rightarrow> bool" where
  "num_lt NaN _ = False"
| "num_lt _ NaN = False"
| "num_lt PosInf _ = False"
| "num_lt _ NegInf = False"
| "num_lt NegInf _ = True"
| "num_lt _ PosInf = True"
| "num_lt (Fin a) (Fin b) = (a < b)"

definition num_gt :: "jsnum \<Rightarrow> jsnum \<Rightarrow> bool" where
  "num_gt a b = num_lt b a"

text \<open>\<open>a <= b\<close> on numbers: \<open>b < a\<close> is false and neither side is \<open>NaN\<close>.\<close>

definition num_le :: "jsnum \<Rightarrow> jsnum \<Rightarrow> bool" where
  "num_le a b = (a \<noteq> NaN \<and> b \<noteq> NaN \<and> \<not> num_lt b a)"

text \<open>Truthiness, as \<open>if (v)\<close>, \<open>a && b\<close>, \<open>a || b\<close> and lodash's \<open>pickBy\<close> read it.\<close>

fun truthy :: "jsval \<Rightarrow> bool" where
  "truthy JUndefined = False"
| "truthy JNull = False"
| "truthy (JBool b) = b"
| "truthy (JNum n) = (n \<noteq> NaN \<and> n \<noteq> Fin 0)"
| "truthy (JStr s) = (s \<noteq> [])"
| "truthy (JArr _) = True"
| "truthy (JObj _) = True"

text \<open>\<open>o.k\<close> on an object (own properties only): \<open>undefined\<close> when the key is missing.\<close>

definition get_prop :: "obj \<Rightarrow> string \<Rightarrow> jsval" where
  "get_prop ob k = (case map_of ob k of None \<Rightarrow> JUndefined | Some v \<Rightarrow> v)"

definition hasOwnProperty :: "obj \<Rightarrow> string \<Rightarrow> bool" where
  "hasOwnProperty ob k = (map_of ob k \<noteq> None)"

text \<open>\<open>o.k = v\<close>: an existing key keeps its place, a new key goes last.\<close>

definition set_prop :: "obj \<Rightarrow> string \<Rightarrow> jsval \<Rightarrow> obj" where
  "set_prop ob k v = AList.update k v ob"

section \<open>Errors\<close>

text \<open>
  What the module throws: its own \<open>ValidationError\<close>, a plain \<open>Error\<close>, the
  \<open>SyntaxError\<close> of an unguarded \<open>JSON.parse\<close>, the \<open>TypeError\<close> of a property read
  on \<open>undefined\<close>/\<open>null\<close> or of a call of a method the value does not have, and
  whatever the backend threw, rethrown as it is.
\<close>

datatype error =
    ValidationError string
  | Error string
  | SyntaxError
  | TypeError
  | Thrown jsval

definition bind :: "error + 'a \<Rightarrow> ('a \<Rightarrow> error + 'b) \<Rightarrow> error + 'b" where
  "bind m f = (case m of Inl e \<Rightarrow> Inl e | Inr x \<Rightarrow> f x)"

section \<open>The host: builtins and imported libraries\<close>

text \<open>
  What the module takes from the JavaScript runtime, from libraries, or from the
  repository's own \<open>./database\<close> module: the rounding of a decimal to a double, the rendering of a
  number that is not a small integer, the comparison of operands that are not both
  numbers, \<open>JSON\<close>, \<open>encodeURIComponent\<close>, luxon's \<open>DateTime.fromISO\<close>,
  \<open>process.env\<close> and \<open>isIndexNotFoundError\<close> of \<open>./database\<close>. Every theorem holds for
  every host.
\<close>

datatype DateTime = Valid int | Invalid string string

record host =
  roundToDouble :: "rat \<Rightarrow> jsnum"
  fractionToString :: "rat \<Rightarrow> string"
  relational_gt :: "jsval \<Rightarrow> jsval \<Rightarrow> bool"
  JSON_parse :: "string \<Rightarrow> jsval option"
  JSON_stringify :: "jsval \<Rightarrow> string"
  encodeURIComponent :: "string \<Rightarrow> string"
  fromISO :: "string \<Rightarrow> DateTime"
  process_env :: "string \<Rightarrow> string option"
  isIndexNotFoundError :: "jsval \<Rightarrow> bool"

section \<open>Strings and numbers\<close>

definition is_digit :: "char \<Rightarrow> bool" where
  "is_digit c = (c \<in> set ''0123456789'')"

definition digit_val :: "char \<Rightarrow> nat" where
  "digit_val c = (case map_of (zip ''0123456789abcdefABCDEF''
       [0, 1, 2, 3, 4, 5, 6, 7, 8, 9, 10, 11, 12, 13, 14, 15, 10, 11, 12, 13, 14, 15]) c of
     None \<Rightarrow> 0 | Some d \<Rightarrow> d)"

text \<open>The value of a digit string in a radix, most significant digit first.\<close>

definition digits_val :: "nat \<Rightarrow> string \<Rightarrow> nat" where
  "digits_val radix ds = foldl (\<lambda>acc c. acc * radix + digit_val c) 0 ds"

text \<open>
  The white space \<open>parseInt\<close> and \<open>parseFloat\<close> skip (\<open>StrWhiteSpaceChar\<close>). Below 256
  these are the space, the tab, the line feed, the vertical tab, the form feed, the
  carriage return and the no-break space U+00A0.
\<close>

definition is_space :: "char \<Rightarrow> bool" where
  "is_space c =
     (c \<in> set [CHR '' '', CHR 0x09, CHR 0x0A, CHR 0x0B, CHR 0x0C, CHR 0x0D, CHR 0xA0])"

text \<open>
  A mathematical value as a number: an integer up to \<open>2^53\<close> in magnitude is a double;
  every other value is rounded by the host.
\<close>

definition toDouble :: "host \<Rightarrow> rat \<Rightarrow> jsnum" where
  "toDouble h q =
     (if of_int \<lfloor>q\<rfloor> = q \<and> \<bar>q\<bar> \<le> 9007199254740992 then Fin q else roundToDouble h q)"

fun string_of_nat :: "nat \<Rightarrow> string" where
  "string_of_nat n =
     (if n < 10 then [''0123456789'' ! n]
      else string_of_nat (n div 10) @ [''0123456789'' ! (n mod 10)])"

declare string_of_nat.simps [simp del]

text \<open>
  \<open>Number::toString\<close>: an integer below \<open>10^21\<close> in magnitude is its decimal digits;
  the host renders every other finite number.
\<close>

definition numberToString :: "host \<Rightarrow> jsnum \<Rightarrow> string" where
  "numberToString h n =
     (case n of
        NaN \<Rightarrow> ''NaN''
      | PosInf \<Rightarrow> ''Infinity''
      | NegInf \<Rightarrow> ''-Infinity''
      | Fin q \<Rightarrow>
          if of_int \<lfloor>q\<rfloor> = q \<and> \<bar>q\<bar> < 1000000000000000000000
          then (if q < 0 then ''-'' else '''') @ string_of_nat (nat \<bar>\<lfloor>q\<rfloor>\<bar>)
          else fractionToString h q)"

fun js_join :: "string \<Rightarrow> string list \<Rightarrow> string" where
  "js_join sep [] = []"
| "js_join sep [x] = x"
| "js_join sep (x # y # ys) = x @ sep @ js_join sep (y # ys)"

text \<open>
  \<open>ToString\<close>: what a template literal, \<open>Array.prototype.join\<close>, \<open>String.prototype.concat\<close>
  and \<open>parseInt\<close> apply to a value. An array is its elements joined with commas, with
  \<open>undefined\<close> and \<open>null\<close> elements empty; a plain object is \<open>[object Object]\<close>.
  This is the string the conversion returns when it returns; \<open>ToString_throws\<close> below
  says when it does not.
\<close>

fun ToString :: "host \<Rightarrow> jsval \<Rightarrow> string" where
  "ToString h JUndefined = ''undefined''"
| "ToString h JNull = ''null''"
| "ToString h (JBool b) = (if b then ''true'' else ''false'')"
| "ToString h (JNum n) = numberToString h n"
| "ToString h (JStr s) = s"
| "ToString h (JArr xs) =
     js_join '','' (map (\<lambda>x. if x = JUndefined \<or> x = JNull then [] else ToString h x) xs)"
| "ToString h (JObj _) = ''[object Object]''"

text \<open>
  When \<open>ToString\<close> throws a \<open>TypeError\<close> on a JSON-like value: an object with an own
  property \<open>toString\<close> hides \<open>Object.prototype.toString\<close> behind a value that is no
  function, and \<open>Object.prototype.valueOf\<close> then returns the object itself, which is no
  primitive; an array throws when one of its elements does.
\<close>

fun ToString_throws :: "jsval \<Rightarrow> bool" where
  "ToString_throws (JObj ob) = hasOwnProperty ob ''toString''"
| "ToString_throws (JArr xs) = list_ex ToString_throws xs"
| "ToString_throws _ = False"

text \<open>\<open>xs.join(sep)\<close> on an array of values.\<close>

definition array_join :: "host \<Rightarrow> string \<Rightarrow> jsval list \<Rightarrow> string" where
  "array_join h sep xs =
     js_join sep (map (\<lambda>x. if x = JUndefined \<or> x = JNull then [] else ToString h x) xs)"

text \<open>
  \<open>parseInt(v)\<close> with no radix: \<open>ToString\<close>, leading white space skipped, an optional
  sign, an optional \<open>0x\<close>/\<open>0X\<close> (then radix 16, else 10), and the longest run of digits
  of the radix; \<open>NaN\<close> when that run is empty.
\<close>

definition is_hex_digit :: "char \<Rightarrow> bool" where
  "is_hex_digit c = (c \<in> set ''0123456789abcdefABCDEF'')"

definition parseInt :: "host \<Rightarrow> jsval \<Rightarrow> jsnum" where
  "parseInt h v =
     (let s = dropWhile is_space (ToString h v);
          neg = (s \<noteq> [] \<and> hd s = CHR ''-'');
          s1 = (if s \<noteq> [] \<and> (hd s = CHR ''-'' \<or> hd s = CHR ''+'') then tl s else s);
          hex = (take 2 s1 = ''0x'' \<or> take 2 s1 = ''0X'');
          ds = (if hex then takeWhile is_hex_digit (drop 2 s1) else takeWhile is_digit s1)
      in if ds = [] then NaN
         else toDouble h ((if neg then - 1 else 1) * of_nat (digits_val (if hex then 16 else 10) ds)))"

text \<open>
  \<open>parseInt(v)\<close> inside a \<open>try\<close>: it throws exactly when \<open>ToString\<close> does, and
  otherwise returns the number read from the string.
\<close>

definition try_parseInt :: "host \<Rightarrow> jsval \<Rightarrow> error + jsnum" where
  "try_parseInt h v = (if ToString_throws v then Inl TypeError else Inr (parseInt h v))"

section \<open>Parameter extraction\<close>

text \<open>
  \<open>extractLimit\<close>. The \<open>catch\<close> around \<open>parseInt\<close> replaces whatever \<open>parseInt\<close>
  threw by a validation error with a message of its own.
\<close>

definition extractLimit :: "host \<Rightarrow> obj \<Rightarrow> error + jsval" where
  "extractLimit h params =
     (let limitStr = get_prop params ''limit'' in
      if limitStr \<noteq> JUndefined then
        (case try_parseInt h limitStr of
           Inl e \<Rightarrow> Inl (ValidationError ''Invalid limit value'')
         | Inr limit \<Rightarrow>
             if limit = NaN \<or> num_le limit (Fin 0) then
               Inl (ValidationError ''Invalid limit value, must be a number between 1 and 10000 inclusive'')
             else Inr (JNum (if num_gt limit (Fin 10000) then Fin 10000 else limit)))
      else Inr JUndefined)"

text \<open>\<open>extractPage\<close>: as \<open>extractLimit\<close>, with no upper bound.\<close>

definition extractPage :: "host \<Rightarrow> obj \<Rightarrow> error + jsval" where
  "extractPage h params =
     (let pageStr = get_prop params ''page'' in
      if pageStr \<noteq> JUndefined then
        (case try_parseInt h pageStr of
           Inl e \<Rightarrow> Inl (ValidationError ''Invalid page value'')
         | Inr page \<Rightarrow>
             if page = NaN \<or> num_le page (Fin 0) then
               Inl (ValidationError ''Invalid page value, must be a number greater than 1'')
             else Inr (JNum page))
      else Inr JUndefined)"

subsection \<open>Strings\<close>

text \<open>\<open>s.split(c)\<close> for a one-character separator: never empty, \<open>''''.split(c) = ['''']\<close>.\<close>

fun js_split :: "char \<Rightarrow> string \<Rightarrow> string list" where
  "js_split c [] = [[]]"
| "js_split c (x # xs) =
     (if x = c then [] # js_split c xs
      else (case js_split c xs of [] \<Rightarrow> [[x]] | w # ws \<Rightarrow> (x # w) # ws))"

text \<open>\<open>s.toUpperCase()\<close> on the ASCII letters; every other character stays.\<close>

definition upper_char :: "char \<Rightarrow> char" where
  "upper_char c =
     (case map_of (zip ''abcdefghijklmnopqrstuvwxyz'' ''ABCDEFGHIJKLMNOPQRSTUVWXYZ'') c of
        None \<Rightarrow> c | Some u \<Rightarrow> u)"

definition toUpperCase :: "string \<Rightarrow> string" where
  "toUpperCase s = map upper_char s"

text \<open>
  \<open>parseFloat(s)\<close> on a string: leading white space skipped, then the longest prefix that
  is a decimal literal (sign, \<open>Infinity\<close> or digits with an optional fraction and an
  optional exponent); \<open>NaN\<close> when there is none.
\<close>

definition parseFloat :: "host \<Rightarrow> string \<Rightarrow> jsnum" where
  "parseFloat h str =
     (let s = dropWhile is_space str;
          neg = (s \<noteq> [] \<and> hd s = CHR ''-'');
          s1 = (if s \<noteq> [] \<and> (hd s = CHR ''-'' \<or> hd s = CHR ''+'') then tl s else s)
      in if take 8 s1 = ''Infinity'' then (if neg then NegInf else PosInf)
         else
          (let ip = takeWhile is_digit s1;
               r1 = dropWhile is_digit s1;
               dot = (r1 \<noteq> [] \<and> hd r1 = CHR ''.'');
               fp = (if dot then takeWhile is_digit (tl r1) else []);
               r2 = (if dot then dropWhile is_digit (tl r1) else r1);
               r3 = (if r2 \<noteq> [] \<and> (hd r2 = CHR ''e'' \<or> hd r2 = CHR ''E'') then tl r2 else []);
               eneg = (r3 \<noteq> [] \<and> hd r3 = CHR ''-'');
               r4 = (if r3 \<noteq> [] \<and> (hd r3 = CHR ''-'' \<or> hd r3 = CHR ''+'') then tl r3 else r3);
               e = digits_val 10 (takeWhile is_digit r4);
               m = (of_nat (digits_val 10 (ip @ fp)) :: rat) / 10 ^ length fp
           in if ip = [] \<and> fp = [] then NaN
              else toDouble h ((if neg then - 1 else 1) * (if eneg then m / 10 ^ e else m * 10 ^ e))))"

subsection \<open>The bounding box\<close>

text \<open>\<open>a > b\<close> on values: numeric on two numbers, the host's comparison otherwise.\<close>

definition js_gt :: "host \<Rightarrow> jsval \<Rightarrow> jsval \<Rightarrow> bool" where
  "js_gt h a b =
     (case (a, b) of (JNum x, JNum y) \<Rightarrow> num_gt x y | _ \<Rightarrow> relational_gt h a b)"

definition isArray :: "jsval \<Rightarrow> bool" where
  "isArray v = (case v of JArr _ \<Rightarrow> True | _ \<Rightarrow> False)"

text \<open>
  \<open>extent(bboxArray).polygon()\<close> of the library @mapbox/extent: the constructor keeps the
  array it is given as \<open>_bbox\<close>, and \<open>polygon\<close> builds one closed ring of five positions
  from the elements 0 to 3 of it, read as west, south, east, north. An element past the
  end of the array is \<open>undefined\<close>.
\<close>

definition element :: "jsval list \<Rightarrow> nat \<Rightarrow> jsval" where
  "element xs i = (if i < length xs then xs ! i else JUndefined)"

definition extent_polygon :: "jsval list \<Rightarrow> jsval" where
  "extent_polygon bbox =
     JObj [(''type'', JStr ''Polygon''),
           (''coordinates'',
            JArr [JArr [JArr [element bbox 0, element bbox 1],
                        JArr [element bbox 2, element bbox 1],
                        JArr [element bbox 2, element bbox 3],
                        JArr [element bbox 0, element bbox 3],
                        JArr [element bbox 0, element bbox 1]]])]"

text \<open>
  The closed polygon of a box, as the specification has it: the ring that runs from the
  south-west corner through the south-east, north-east and north-west corners back to
  the south-west corner, each position a longitude and a latitude.
\<close>

definition box_polygon :: "jsnum \<Rightarrow> jsnum \<Rightarrow> jsnum \<Rightarrow> jsnum \<Rightarrow> jsval" where
  "box_polygon west south east north =
     JObj [(''type'', JStr ''Polygon''),
           (''coordinates'',
            JArr [JArr [JArr [JNum west, JNum south],
                        JArr [JNum east, JNum south],
                        JArr [JNum east, JNum north],
                        JArr [JNum west, JNum north],
                        JArr [JNum west, JNum south]]])]"

text \<open>
  The two checks \<open>extractBbox\<close> makes on the component array, and the polygon it returns
  when both pass.
\<close>

definition checkBboxArray :: "host \<Rightarrow> jsval list \<Rightarrow> error + jsval" where
  "checkBboxArray h bboxArray =
     (if length bboxArray \<noteq> 4 \<and> length bboxArray \<noteq> 6 then
        Inl (ValidationError ''Invalid bbox, must have 4 or 6 points'')
      else if (length bboxArray = 4 \<and> js_gt h (bboxArray ! 1) (bboxArray ! 3))
            \<or> (length bboxArray = 6 \<and> js_gt h (bboxArray ! 1) (bboxArray ! 4)) then
        Inl (ValidationError ''Invalid bbox, SW latitude must be less than NE latitude'')
      else Inr (extent_polygon bboxArray))"

text \<open>
  \<open>extractBbox(params, httpMethod = 'GET')\<close>: the component array is read from a string
  under GET and is the array itself under POST; every other truthy \<open>bbox\<close> is invalid.
  The \<open>catch\<close> around the split is dead: nothing in it throws on a string.
\<close>

definition extractBbox :: "host \<Rightarrow> obj \<Rightarrow> jsval \<Rightarrow> error + jsval" where
  "extractBbox h params httpMethod0 =
     (let httpMethod = (if httpMethod0 = JUndefined then JStr ''GET'' else httpMethod0);
          bbox = get_prop params ''bbox'' in
      if truthy bbox then
        bind
          (case bbox of
             JStr s \<Rightarrow>
               if httpMethod = JStr ''GET''
               then Inr (map JNum (filter (\<lambda>x. x \<noteq> NaN) (map (parseFloat h) (js_split CHR '','' s))))
               else Inl (ValidationError ''Invalid bbox'')
           | JArr xs \<Rightarrow>
               if httpMethod = JStr ''POST'' then Inr xs
               else Inl (ValidationError ''Invalid bbox'')
           | _ \<Rightarrow> Inl (ValidationError ''Invalid bbox''))
          (checkBboxArray h)
      else Inr JUndefined)"

subsection \<open>The datetime\<close>

text \<open>
  A prefix of the string against a template: \<open>d\<close> in the template stands for one digit,
  every other character for itself. The rest of the string is returned.
\<close>

fun match_template :: "string \<Rightarrow> string \<Rightarrow> string option" where
  "match_template [] s = Some s"
| "match_template (p # ps) [] = None"
| "match_template (p # ps) (c # cs) =
     (if (if p = CHR ''d'' then is_digit c else c = p) then match_template ps cs else None)"

text \<open>
  \<open>RFC3339_REGEX.test(s)\<close>: date and time in the fixed layout, an optional fraction of
  one digit or more (the group is greedy, and what follows it is no digit), then \<open>Z\<close> or a
  signed offset, to the end of the string.
\<close>

definition RFC3339_REGEX_test :: "string \<Rightarrow> bool" where
  "RFC3339_REGEX_test s =
     (case match_template ''dddd-dd-ddTdd:dd:dd'' s of
        None \<Rightarrow> False
      | Some r \<Rightarrow>
          (let z = (if r \<noteq> [] \<and> hd r = CHR ''.'' \<and> takeWhile is_digit (tl r) \<noteq> []
                    then dropWhile is_digit (tl r) else r)
           in z = ''Z'' \<or> match_template ''+dd:dd'' z = Some [] \<or> match_template ''-dd:dd'' z = Some []))"

text \<open>
  \<open>rfc3339ToDateTime\<close>. A valid luxon \<open>DateTime\<close> is its epoch milliseconds (what \<open><\<close>
  compares); an invalid one carries its reason and explanation. The source's message
  ends in a stray apostrophe.
\<close>

definition rfc3339ToDateTime :: "host \<Rightarrow> string \<Rightarrow> error + int" where
  "rfc3339ToDateTime h s =
     (if \<not> RFC3339_REGEX_test s then
        Inl (ValidationError ''datetime value is invalid, does not match RFC3339 format'')
      else (case fromISO h s of
              Valid ts \<Rightarrow> Inr ts
            | Invalid invalidReason invalidExplanation \<Rightarrow>
                Inl (ValidationError (''datetime value is invalid, '' @ invalidReason @ '' ''
                       @ invalidExplanation @ [CHR 0x27]))))"

definition validateStartAndEndDatetimes :: "int option \<Rightarrow> int option \<Rightarrow> error + unit" where
  "validateStartAndEndDatetimes startDateTime endDateTime =
     (case (startDateTime, endDateTime) of
        (Some s, Some e) \<Rightarrow>
          if e < s then
            Inl (ValidationError
              ''datetime value is invalid, start datetime must be before end datetime with interval'')
          else Inr ()
      | _ \<Rightarrow> Inr ())"

text \<open>One end of the interval: parsed when it is neither missing, empty nor \<open>..\<close>.\<close>

definition closed_end :: "host \<Rightarrow> string option \<Rightarrow> error + int option" where
  "closed_end h e =
     (case e of
        None \<Rightarrow> Inr None
      | Some s \<Rightarrow>
          if s \<noteq> [] \<and> s \<noteq> ''..'' then bind (rfc3339ToDateTime h s) (\<lambda>dt. Inr (Some dt))
          else Inr None)"

text \<open>
  \<open>extractDatetime\<close>. \<open>[start, end, ...rest]\<close> destructures the split: \<open>start\<close> is always
  there, \<open>end\<close> is \<open>undefined\<close> when the string has no slash. A truthy value that is no
  string has no \<open>toUpperCase\<close>.
\<close>

definition extractDatetime :: "host \<Rightarrow> obj \<Rightarrow> error + jsval" where
  "extractDatetime h params =
     (let datetime = get_prop params ''datetime'' in
      if truthy datetime then
        (case datetime of
           JStr d \<Rightarrow>
             (let datetimeUpperCase = toUpperCase d;
                  parts = js_split CHR ''/'' datetimeUpperCase;
                  start = hd parts;
                  end = (if 1 < length parts then Some (parts ! 1) else None);
                  rest = drop 2 parts;
                  no_start = (start = []);
                  no_end = (end = None \<or> end = Some [])
              in if rest \<noteq> [] then
                   Inl (ValidationError
                     ''datetime value is invalid, too many forward slashes for an interval'')
                 else if (no_start \<and> no_end)
                       \<or> (start = ''..'' \<and> end = Some ''..'')
                       \<or> (no_start \<and> end = Some ''..'')
                       \<or> (start = ''..'' \<and> no_end) then
                   Inl (ValidationError
                     ''datetime value is invalid, at least one end of the interval must be closed'')
                 else
                   bind (closed_end h (Some start)) (\<lambda>startDateTime.
                   bind (closed_end h end) (\<lambda>endDateTime.
                   bind (validateStartAndEndDatetimes startDateTime endDateTime) (\<lambda>_.
                   Inr (JStr datetimeUpperCase)))))
         | _ \<Rightarrow> Inl TypeError)
      else Inr JUndefined)"

subsection \<open>Property reads\<close>

text \<open>A canonical array index: decimal digits with no leading zero.\<close>

definition array_index :: "string \<Rightarrow> nat option" where
  "array_index k =
     (if k \<noteq> [] \<and> list_all is_digit k \<and> (k = ''0'' \<or> hd k \<noteq> CHR ''0'')
      then Some (digits_val 10 k) else None)"

text \<open>
  \<open>v[k]\<close> on a value that is neither \<open>undefined\<close> nor \<open>null\<close>, for a key that names
  data: an own property of an object, an element or the length of an array or a string;
  \<open>undefined\<close> otherwise. Inherited members are functions and are not values here; the
  module reads none of them this way.
\<close>

definition js_member :: "jsval \<Rightarrow> string \<Rightarrow> jsval" where
  "js_member v k =
     (case v of
        JObj ob \<Rightarrow> get_prop ob k
      | JArr xs \<Rightarrow>
          if k = ''length'' then JNum (Fin (of_nat (length xs)))
          else (case array_index k of
                  Some i \<Rightarrow> if i < length xs then xs ! i else JUndefined
                | None \<Rightarrow> JUndefined)
      | JStr s \<Rightarrow>
          if k = ''length'' then JNum (Fin (of_nat (length s)))
          else (case array_index k of
                  Some i \<Rightarrow> if i < length s then JStr [s ! i] else JUndefined
                | None \<Rightarrow> JUndefined)
      | _ \<Rightarrow> JUndefined)"

text \<open>\<open>v.k\<close> as the module writes it: a \<open>TypeError\<close> on \<open>undefined\<close> and \<open>null\<close>.\<close>

definition read_member :: "jsval \<Rightarrow> string \<Rightarrow> error + jsval" where
  "read_member v k = (if v = JUndefined \<or> v = JNull then Inl TypeError else Inr (js_member v k))"

text \<open>
  \<open>{ ...v }\<close>: the own enumerable properties of a value, in order. An array gives its
  indices, a string its characters, every other primitive nothing.
\<close>

definition spread :: "jsval \<Rightarrow> obj" where
  "spread v =
     (case v of
        JObj ob \<Rightarrow> ob
      | JArr xs \<Rightarrow> zip (map string_of_nat [0 ..< length xs]) xs
      | JStr s \<Rightarrow> zip (map string_of_nat [0 ..< length s]) (map (\<lambda>c. JStr [c]) s)
      | _ \<Rightarrow> [])"

text \<open>\<open>a || b\<close>.\<close>

definition js_or :: "jsval \<Rightarrow> jsval \<Rightarrow> jsval" where
  "js_or a b = (if truthy a then a else b)"

subsection \<open>The other parameters\<close>

definition extractIntersects :: "host \<Rightarrow> obj \<Rightarrow> error + jsval" where
  "extractIntersects h params =
     (let intersects = get_prop params ''intersects'' in
      if truthy intersects then
        bind
          (case intersects of
             JStr s \<Rightarrow>
               (case JSON_parse h s of
                  None \<Rightarrow> Inl (ValidationError ''Invalid GeoJSON geometry'')
                | Some parsed \<Rightarrow> Inr parsed)
           | _ \<Rightarrow> Inr (JObj (spread intersects)))
          (\<lambda>geojson.
             bind (read_member geojson ''type'') (\<lambda>t.
               if t = JStr ''FeatureCollection'' \<or> t = JStr ''Feature'' then
                 Inl (Error ''Expected GeoJSON geometry, not Feature or FeatureCollection'')
               else Inr geojson))
      else Inr JUndefined)"

text \<open>One rule of a GET-style \<open>sortby\<close>: \<open>-field\<close>, \<open>+field\<close> or \<open>field\<close>.\<close>

definition sortbyRule :: "string \<Rightarrow> jsval" where
  "sortbyRule r =
     (if r \<noteq> [] \<and> hd r = CHR ''-'' then
        JObj [(''field'', JStr (tl r)), (''direction'', JStr ''desc'')]
      else if r \<noteq> [] \<and> hd r = CHR ''+'' then
        JObj [(''field'', JStr (tl r)), (''direction'', JStr ''asc'')]
      else JObj [(''field'', JStr r), (''direction'', JStr ''asc'')])"

text \<open>
  \<open>extractSortby\<close>: a string is split into rules; of the other truthy values only an
  array has the \<open>slice\<close> the POST branch calls.
\<close>

definition extractSortby :: "obj \<Rightarrow> error + jsval" where
  "extractSortby params =
     (let sortby = get_prop params ''sortby'' in
      if truthy sortby then
        (case sortby of
           JStr s \<Rightarrow> Inr (JArr (map sortbyRule (js_split CHR '','' s)))
         | JArr xs \<Rightarrow> Inr (JArr xs)
         | _ \<Rightarrow> Inl TypeError)
      else Inr JUndefined)"

text \<open>\<open>extractStacQuery\<close>: the \<open>JSON.parse\<close> is not guarded.\<close>

definition extractStacQuery :: "host \<Rightarrow> obj \<Rightarrow> error + jsval" where
  "extractStacQuery h params =
     (let query = get_prop params ''query'' in
      if truthy query then
        (case query of
           JStr s \<Rightarrow> (case JSON_parse h s of None \<Rightarrow> Inl SyntaxError | Some parsed \<Rightarrow> Inr parsed)
         | _ \<Rightarrow> Inr (JObj (spread query)))
      else Inr JUndefined)"

text \<open>
  \<open>extractFields\<close>: \<open>fieldRule[0]\<close> is \<open>undefined\<close> on the empty token, which is
  therefore included. The method call \<open>params.hasOwnProperty('fields')\<close> is made only when
  \<open>fields\<close> is falsy; it finds \<open>Object.prototype.hasOwnProperty\<close> unless the parameters
  have an own property \<open>hasOwnProperty\<close>, whose value is no function: the call is then a
  \<open>TypeError\<close>.
\<close>

definition extractFields :: "obj \<Rightarrow> error + jsval" where
  "extractFields params =
     (let fields = get_prop params ''fields'' in
      if truthy fields then
        (case fields of
           JStr s \<Rightarrow>
             (let fieldRules = js_split CHR '','' s;
                  include = filter (\<lambda>fieldRule. \<not> (fieldRule \<noteq> [] \<and> hd fieldRule = CHR ''-'')) fieldRules;
                  exclude = map tl (filter (\<lambda>fieldRule. fieldRule \<noteq> [] \<and> hd fieldRule = CHR ''-'') fieldRules)
              in Inr (JObj [(''include'', JArr (map JStr include)), (''exclude'', JArr (map JStr exclude))]))
         | _ \<Rightarrow> Inr fields)
      else if hasOwnProperty params ''hasOwnProperty'' then Inl TypeError
      else if hasOwnProperty params ''fields'' then Inr (JObj [])
      else Inr JUndefined)"

text \<open>
  \<open>extractIds\<close> and \<open>extractCollectionIds\<close> differ in the key only: a string is parsed
  as JSON and split at the commas when that fails; an array is copied.
\<close>

definition extractIdList :: "host \<Rightarrow> string \<Rightarrow> obj \<Rightarrow> error + jsval" where
  "extractIdList h key params =
     (let ids = get_prop params key in
      if truthy ids then
        (case ids of
           JStr s \<Rightarrow>
             Inr (case JSON_parse h s of
                    Some parsed \<Rightarrow> parsed
                  | None \<Rightarrow> JArr (map JStr (js_split CHR '','' s)))
         | JArr xs \<Rightarrow> Inr (JArr xs)
         | _ \<Rightarrow> Inl TypeError)
      else Inr JUndefined)"

definition extractIds :: "host \<Rightarrow> obj \<Rightarrow> error + jsval" where
  "extractIds h params = extractIdList h ''ids'' params"

definition extractCollectionIds :: "host \<Rightarrow> obj \<Rightarrow> error + jsval" where
  "extractCollectionIds h params = extractIdList h ''collections'' params"

section \<open>Response assembly\<close>

text \<open>A loop over a list that stops at the first throw.\<close>

fun traverse :: "('a \<Rightarrow> error + 'b) \<Rightarrow> 'a list \<Rightarrow> error + 'b list" where
  "traverse f [] = Inr []"
| "traverse f (x # xs) =
     (case f x of
        Inl e \<Rightarrow> Inl e
      | Inr y \<Rightarrow> (case traverse f xs of Inl e \<Rightarrow> Inl e | Inr ys \<Rightarrow> Inr (y # ys)))"

definition link :: "string \<Rightarrow> string \<Rightarrow> string \<Rightarrow> jsval" where
  "link rel type href = JObj [(''rel'', JStr rel), (''type'', JStr type), (''href'', JStr href)]"

subsection \<open>Links on collections\<close>

text \<open>
  The body of the loop of \<open>addCollectionLinks\<close>. The record is mutated in place; the model
  returns the record after the mutation. A missing or \<open>null\<close> \<open>links\<close> is replaced by a
  fresh array that is stored in the record before the links are added to it.
\<close>

definition addCollectionLinks_each :: "host \<Rightarrow> string \<Rightarrow> obj \<Rightarrow> error + obj" where
  "addCollectionLinks_each h endpoint result =
     (let id = get_prop result ''id'';
          links0 = get_prop result ''links'';
          links = (if links0 = JUndefined \<or> links0 = JNull then JArr [] else links0)
      in case links of
           JArr ls \<Rightarrow>
             Inr (set_prop result ''links'' (JArr
               (link ''self'' ''application/geo+json'' (endpoint @ ''/collections/'' @ ToString h id)
                # ls
                @ [link ''parent'' ''application/geo+json'' endpoint,
                   link ''root'' ''application/geo+json'' endpoint,
                   link ''items'' ''application/geo+json''
                     (endpoint @ ''/collections/'' @ ToString h id @ ''/items'')])))
         | _ \<Rightarrow> Inl TypeError)"

definition addCollectionLinks :: "host \<Rightarrow> obj list \<Rightarrow> string \<Rightarrow> error + obj list" where
  "addCollectionLinks h results endpoint = traverse (addCollectionLinks_each h endpoint) results"

subsection \<open>Links on items\<close>

definition item_self_link :: "host \<Rightarrow> string \<Rightarrow> obj \<Rightarrow> jsval" where
  "item_self_link h endpoint result =
     link ''self'' ''application/geo+json''
       (endpoint @ ''/collections/'' @ ToString h (get_prop result ''collection'')
          @ ''/items/'' @ ToString h (get_prop result ''id''))"

definition item_more_links :: "host \<Rightarrow> string \<Rightarrow> obj \<Rightarrow> jsval list" where
  "item_more_links h endpoint result =
     [link ''parent'' ''application/json''
        (endpoint @ ''/collections/'' @ ToString h (get_prop result ''collection'')),
      link ''collection'' ''application/json''
        (endpoint @ ''/collections/'' @ ToString h (get_prop result ''collection'')),
      link ''root'' ''application/geo+json'' endpoint,
      JObj [(''rel'', JStr ''thumbnail''),
            (''href'', JStr (endpoint @ ''/collections/'' @ ToString h (get_prop result ''collection'')
               @ ''/items/'' @ ToString h (get_prop result ''id'') @ ''/thumbnail''))]]"

text \<open>
  The body of the loop of \<open>addItemLinks\<close>. \<open>links\<close> is a local variable: when the record
  has no \<open>links\<close> it becomes a fresh array, the links are spliced and pushed into that
  array, and the array is never stored in the record. When the record has an array, the
  array is changed in place (records are taken not to share one array: they are parsed
  JSON). Any other value has no \<open>splice\<close>. The \<open>type\<close> is set last.
\<close>

definition addItemLinks_each :: "host \<Rightarrow> string \<Rightarrow> obj \<Rightarrow> error + obj" where
  "addItemLinks_each h endpoint result =
     (let links = get_prop result ''links'' in
      case links of
        JUndefined \<Rightarrow> Inr (set_prop result ''type'' (JStr ''Feature''))
      | JArr ls \<Rightarrow>
          Inr (set_prop
                 (set_prop result ''links''
                    (JArr (item_self_link h endpoint result # ls @ item_more_links h endpoint result)))
                 ''type'' (JStr ''Feature''))
      | _ \<Rightarrow> Inl TypeError)"

definition addItemLinks :: "host \<Rightarrow> obj list \<Rightarrow> string \<Rightarrow> error + obj list" where
  "addItemLinks h results endpoint = traverse (addItemLinks_each h endpoint) results"

subsection \<open>The feature collection\<close>

text \<open>\<open>process.env.NAME || default\<close>.\<close>

definition env_or :: "host \<Rightarrow> string \<Rightarrow> string \<Rightarrow> string" where
  "env_or h name fallback =
     (case process_env h name of None \<Rightarrow> fallback | Some v \<Rightarrow> if v = [] then fallback else v)"

definition wrapResponseInFeatureCollection :: "host \<Rightarrow> obj \<Rightarrow> obj list \<Rightarrow> jsval list \<Rightarrow> jsval" where
  "wrapResponseInFeatureCollection h context features links =
     JObj [(''type'', JStr ''FeatureCollection''),
           (''stac_version'', JStr (env_or h ''STAC_VERSION'' ''1.0.0'')),
           (''stac_extensions'', JArr []),
           (''context'', JObj context),
           (''numberMatched'', get_prop context ''matched''),
           (''numberReturned'', get_prop context ''returned''),
           (''features'', JArr (map JObj features)),
           (''links'', JArr links)]"

subsection \<open>Pagination\<close>

text \<open>lodash's \<open>pickBy(o)\<close>: the properties with a truthy value.\<close>

definition pickBy :: "obj \<Rightarrow> obj" where
  "pickBy ob = filter (\<lambda>(k, v). truthy v) ob"

text \<open>lodash's \<open>assign(o, src)\<close>: every property of \<open>src\<close> is set on \<open>o\<close>, in order.\<close>

definition assign :: "obj \<Rightarrow> obj \<Rightarrow> obj" where
  "assign ob src = foldl (\<lambda>acc (k, v). set_prop acc k v) ob src"

text \<open>
  \<open>Object.keys(v)\<close>: the indices of an array or a string, the keys of an object (in
  insertion order: the module builds none with an integer key), nothing for a number or
  a boolean.
\<close>

definition object_keys :: "jsval \<Rightarrow> string list" where
  "object_keys v =
     (case v of
        JArr xs \<Rightarrow> map string_of_nat [0 ..< length xs]
      | JStr s \<Rightarrow> map string_of_nat [0 ..< length s]
      | JObj ob \<Rightarrow> map fst ob
      | _ \<Rightarrow> [])"

definition is_word_char :: "char \<Rightarrow> bool" where
  "is_word_char c =
     (c \<in> set ''abcdefghijklmnopqrstuvwxyzABCDEFGHIJKLMNOPQRSTUVWXYZ0123456789_'')"

text \<open>lodash's \<open>baseGet\<close>: the walk stops at \<open>undefined\<close> and \<open>null\<close>.\<close>

fun baseGet :: "jsval \<Rightarrow> string list \<Rightarrow> jsval" where
  "baseGet v [] = v"
| "baseGet v (k # ks) =
     (if v = JUndefined \<or> v = JNull then JUndefined else baseGet (js_member v k) ks)"

text \<open>
  lodash's \<open>get(object, path)\<close> for a string path with no brackets, which is all the
  module passes (an array index, or one of three literals): the path is one key when it
  is made of word characters, has no dot, or is a key of the object itself; else it is
  split at the dots.
\<close>

definition getNested :: "obj \<Rightarrow> string \<Rightarrow> jsval" where
  "getNested object path =
     (if list_all is_word_char path \<or> CHR ''.'' \<notin> set path \<or> hasOwnProperty object path
      then get_prop object path
      else baseGet (JObj object) (js_split CHR ''.'' path))"

text \<open>
  The \<open>sortFields\<close> loop of \<open>dictToURI\<close> over an array of rules: \<open>field\<close> for an
  ascending rule, \<open>-field\<close> for any other.
\<close>

definition sortField :: "host \<Rightarrow> jsval \<Rightarrow> error + jsval" where
  "sortField h rule =
     bind (read_member rule ''direction'') (\<lambda>direction.
     bind (read_member rule ''field'') (\<lambda>field.
       if direction = JStr ''asc'' then Inr field
       else Inr (JStr (''-'' @ ToString h field))))"

text \<open>
  One \<open>key=value\<close> of \<open>dictToURI\<close>. An array or an object is rendered first: the sort
  rules in the compact form, the collections by \<open>toString\<close>, anything else as JSON. An
  object under \<open>sortby\<close> has no length, so its loop does not run (the module stores only
  arrays there).
\<close>

definition dictToURI_pair :: "host \<Rightarrow> string \<times> jsval \<Rightarrow> error + string" where
  "dictToURI_pair h pv =
     (let p = fst pv; value = snd pv in
      bind
        (case value of
           JArr xs \<Rightarrow>
             if p = ''sortby'' then
               bind (traverse (sortField h) xs) (\<lambda>sortFields. Inr (JStr (array_join h '','' sortFields)))
             else if p = ''collections'' then Inr (JStr (ToString h value))
             else Inr (JStr (JSON_stringify h value))
         | JObj ob \<Rightarrow>
             if p = ''sortby'' then Inr (JStr [])
             else if p = ''collections'' then Inr (JStr (ToString h value))
             else Inr (JStr (JSON_stringify h value))
         | _ \<Rightarrow> Inr value)
        (\<lambda>value'. Inr (encodeURIComponent h p @ ''='' @ encodeURIComponent h (ToString h value'))))"

definition dictToURI :: "host \<Rightarrow> obj \<Rightarrow> error + string" where
  "dictToURI h dict = bind (traverse (dictToURI_pair h) dict) (\<lambda>pairs. Inr (js_join ''&'' pairs))"

text \<open>
  \<open>buildPaginationLinks\<close>. The keys of the cursor are \<open>Object.keys(sortby)\<close> when a sort
  was requested, the three default paths otherwise.
\<close>

definition buildPaginationLinks ::
  "host \<Rightarrow> jsval \<Rightarrow> obj \<Rightarrow> jsval \<Rightarrow> jsval \<Rightarrow> string \<Rightarrow> jsval \<Rightarrow> jsval \<Rightarrow> obj list
     \<Rightarrow> error + jsval list" where
  "buildPaginationLinks h limit parameters bbox intersects endpoint httpMethod sortby items =
     (if items \<noteq> [] then
        (let lastItem = last items;
             nextKeys = (if truthy sortby then object_keys sortby
                         else [''properties.datetime'', ''id'', ''collection'']);
             next = array_join h '','' (map (\<lambda>k. getNested lastItem k) nextKeys);
             nextParams = pickBy (assign parameters
               [(''bbox'', bbox), (''intersects'', intersects), (''limit'', limit), (''next'', JStr next)]);
             link0 = [(''rel'', JStr ''next''), (''title'', JStr ''Next page of Items''),
                      (''method'', httpMethod)]
         in if httpMethod = JStr ''GET'' then
              bind (dictToURI h nextParams) (\<lambda>nextQueryParameters.
                Inr [JObj (link0 @ [(''href'', JStr (endpoint @ ''?'' @ nextQueryParameters))])])
            else if httpMethod = JStr ''POST'' then
              Inr [JObj (link0 @ [(''href'', JStr endpoint), (''merge'', JBool False),
                                  (''body'', JObj nextParams)])]
            else Inr [JObj link0])
      else Inr [])"

section \<open>The operations\<close>

text \<open>
  The backend is the argument \<open>backend\<close> of the operations: each of its functions returns
  a response or throws. The items of a search response are records (objects) and its
  context is an object, as the backend's contract says. Every call of the backend is
  logged, so that an operation returns its outcome and the calls it made.
\<close>

record search_response =
  resp_results :: "obj list"
  resp_context :: obj

record backend =
  backend_search :: "obj \<Rightarrow> jsval \<Rightarrow> jsval \<Rightarrow> jsval + search_response"
  backend_aggregate :: "obj \<Rightarrow> jsval + jsval"

datatype backend_call = SearchCall obj jsval jsval | AggregateCall obj

text \<open>
  The extraction part of \<open>searchItems\<close>: every parameter, in the order of the source,
  and the search parameters \<open>pickBy\<close> keeps of them. It also returns the sort rules, the
  limit and the page, which the rest of the function uses.
\<close>

definition searchParameters :: "host \<Rightarrow> obj \<Rightarrow> jsval \<Rightarrow> error + (obj \<times> jsval \<times> jsval \<times> jsval)" where
  "searchParameters h queryParameters httpMethod =
     bind (extractDatetime h queryParameters) (\<lambda>datetime.
     bind (extractBbox h queryParameters httpMethod) (\<lambda>bboxGeometry.
     bind (extractIntersects h queryParameters) (\<lambda>intersectsGeometry.
     bind (extractSortby queryParameters) (\<lambda>sortby.
     bind (extractStacQuery h queryParameters) (\<lambda>query.
     bind (extractFields queryParameters) (\<lambda>fields.
     bind (extractIds h queryParameters) (\<lambda>ids.
     bind (extractCollectionIds h queryParameters) (\<lambda>collections.
     bind (extractLimit h queryParameters) (\<lambda>limit.
     bind (extractPage h queryParameters) (\<lambda>page.
       Inr (pickBy [(''datetime'', datetime),
                    (''intersects'', js_or intersectsGeometry bboxGeometry),
                    (''query'', query),
                    (''sortby'', sortby),
                    (''fields'', fields),
                    (''ids'', ids),
                    (''collections'', collections),
                    (''next'', get_prop queryParameters ''next'')],
            sortby, limit, page)))))))))))"

text \<open>
  The \<open>try\<close>/\<open>catch\<close> of \<open>searchItems\<close> around the one call of the backend: an
  index-missing failure becomes an empty response, any other failure is rethrown.
\<close>

definition searchOrEmpty :: "host \<Rightarrow> backend \<Rightarrow> obj \<Rightarrow> jsval \<Rightarrow> jsval \<Rightarrow> error + search_response" where
  "searchOrEmpty h backend searchParams page limit =
     (case backend_search backend searchParams page limit of
        Inl err \<Rightarrow>
          if isIndexNotFoundError h err then
            Inr \<lparr>resp_results = [],
                 resp_context = [(''matched'', JNum (Fin 0)), (''returned'', JNum (Fin 0)),
                                 (''limit'', limit)]\<rparr>
          else Inl (Thrown err)
      | Inr esResponse \<Rightarrow> Inr esResponse)"

text \<open>
  The rest of \<open>searchItems\<close>, from the response on: the pagination links are built from
  the items as the backend returned them, then the item links are added, then the
  document is wrapped. A collection-scoped request gets a self and a root link more.
\<close>

definition searchDocument ::
  "host \<Rightarrow> jsval \<Rightarrow> obj \<Rightarrow> jsval \<Rightarrow> jsval \<Rightarrow> string \<Rightarrow> string \<Rightarrow> jsval \<Rightarrow> jsval \<Rightarrow> jsval
     \<Rightarrow> search_response \<Rightarrow> error + jsval" where
  "searchDocument h collectionId searchParams bbox intersects endpoint newEndpoint httpMethod
       sortby limit esResponse =
     bind (buildPaginationLinks h limit searchParams bbox intersects newEndpoint httpMethod sortby
             (resp_results esResponse)) (\<lambda>paginationLinks.
     bind (addItemLinks h (resp_results esResponse) endpoint) (\<lambda>items.
       Inr (wrapResponseInFeatureCollection h (resp_context esResponse) items
              (if truthy collectionId then
                 paginationLinks @
                   [link ''self'' ''application/json'' newEndpoint,
                    link ''root'' ''application/geo+json'' endpoint]
               else paginationLinks))))"

text \<open>
  \<open>searchItems\<close>: the check that \<open>bbox\<close> and \<open>intersects\<close> do not come together, the
  extraction, the one call of the backend, the document.
\<close>

definition searchItems ::
  "host \<Rightarrow> jsval \<Rightarrow> obj \<Rightarrow> backend \<Rightarrow> string \<Rightarrow> jsval
     \<Rightarrow> (error + jsval) \<times> backend_call list" where
  "searchItems h collectionId queryParameters backend endpoint httpMethod =
     (let bbox = get_prop queryParameters ''bbox'';
          intersects = get_prop queryParameters ''intersects''
      in if truthy bbox \<and> truthy intersects then
           (Inl (ValidationError ''Expected bbox OR intersects, not both''), [])
         else
          (case searchParameters h queryParameters httpMethod of
             Inl e \<Rightarrow> (Inl e, [])
           | Inr (searchParams0, sortby, limit, page) \<Rightarrow>
              (let searchParams =
                     (if truthy collectionId
                      then set_prop searchParams0 ''collections'' (JArr [collectionId])
                      else searchParams0);
                   newEndpoint =
                     (if truthy collectionId
                      then endpoint @ ''/collections/'' @ ToString h collectionId @ ''/items''
                      else endpoint @ ''/search'')
               in (bind (searchOrEmpty h backend searchParams page limit)
                     (searchDocument h collectionId searchParams bbox intersects endpoint newEndpoint
                        httpMethod sortby limit),
                   [SearchCall searchParams page limit]))))"

subsection \<open>Aggregation\<close>

text \<open>What \<open>for (const bucket of v)\<close> iterates: an array or a string.\<close>

definition iterate :: "jsval \<Rightarrow> error + jsval list" where
  "iterate v =
     (case v of
        JArr xs \<Rightarrow> Inr xs
      | JStr s \<Rightarrow> Inr (map (\<lambda>c. JStr [c]) s)
      | _ \<Rightarrow> Inl TypeError)"

definition agg_bucket :: "string \<Rightarrow> jsval \<Rightarrow> error + jsval" where
  "agg_bucket dataType bucket =
     bind (read_member bucket ''key_as_string'') (\<lambda>key_as_string.
     bind (read_member bucket ''key'') (\<lambda>key.
     bind (read_member bucket ''doc_count'') (\<lambda>doc_count.
     bind (read_member bucket ''to'') (\<lambda>to.
     bind (read_member bucket ''from'') (\<lambda>from.
       Inr (JObj [(''key'', js_or key_as_string key),
                  (''data_type'', JStr dataType),
                  (''frequency'', doc_count),
                  (''to'', to),
                  (''from'', from)]))))))"

definition agg :: "jsval \<Rightarrow> string \<Rightarrow> string \<Rightarrow> error + jsval" where
  "agg esAggs name dataType =
     bind (read_member esAggs name) (\<lambda>named.
     bind (read_member named ''buckets'') (\<lambda>bs.
     bind (iterate bs) (\<lambda>bucketList.
     bind (traverse (agg_bucket dataType) bucketList) (\<lambda>buckets.
     bind (read_member named ''sum_other_doc_count'') (\<lambda>other.
       Inr (JObj [(''name'', JStr name),
                  (''data_type'', JStr ''frequency_distribution''),
                  (''overflow'', js_or other (JNum (Fin 0))),
                  (''buckets'', JArr buckets)]))))))"

text \<open>One of the three scalar aggregations: \<open>esAggs[name][key]\<close>.\<close>

definition agg_metric :: "jsval \<Rightarrow> string \<Rightarrow> string \<Rightarrow> string \<Rightarrow> error + jsval" where
  "agg_metric esAggs name dataType key =
     bind (read_member esAggs name) (\<lambda>named.
     bind (read_member named key) (\<lambda>v.
       Inr (JObj [(''name'', JStr name), (''data_type'', JStr dataType), (''value'', v)])))"

text \<open>The extraction part of \<open>aggregate\<close>.\<close>

definition aggregateParameters :: "host \<Rightarrow> obj \<Rightarrow> jsval \<Rightarrow> error + obj" where
  "aggregateParameters h queryParameters httpMethod =
     bind (extractDatetime h queryParameters) (\<lambda>datetime.
     bind (extractBbox h queryParameters httpMethod) (\<lambda>bboxGeometry.
     bind (extractIntersects h queryParameters) (\<lambda>intersectsGeometry.
     bind (extractStacQuery h queryParameters) (\<lambda>query.
     bind (extractIds h queryParameters) (\<lambda>ids.
     bind (extractCollectionIds h queryParameters) (\<lambda>collections.
       Inr (pickBy [(''datetime'', datetime),
                    (''intersects'', js_or intersectsGeometry bboxGeometry),
                    (''query'', query),
                    (''ids'', ids),
                    (''collections'', collections)])))))))"

text \<open>
  The \<open>try\<close>/\<open>catch\<close> of \<open>aggregate\<close>: an index-missing failure of the backend becomes
  the response \<open>{}\<close>, any other failure is rethrown.
\<close>

definition aggregateOrEmpty :: "host \<Rightarrow> backend \<Rightarrow> obj \<Rightarrow> error + jsval" where
  "aggregateOrEmpty h backend searchParams =
     (case backend_aggregate backend searchParams of
        Inl err \<Rightarrow> if isIndexNotFoundError h err then Inr (JObj []) else Inl (Thrown err)
      | Inr esResponse \<Rightarrow> Inr esResponse)"

text \<open>
  The rest of \<open>aggregate\<close>: the body and the aggregations are read from the response,
  whatever it is, and the twelve aggregations are built in order.
\<close>

definition aggregateDocument :: "string \<Rightarrow> jsval \<Rightarrow> error + jsval" where
  "aggregateDocument endpoint esResponse =
     bind (read_member esResponse ''body'') (\<lambda>body.
     bind (read_member body ''aggregations'') (\<lambda>esAggs.
     bind (traverse (\<lambda>f. f esAggs)
       [\<lambda>a. agg_metric a ''total_count'' ''integer'' ''value'',
        \<lambda>a. agg_metric a ''datetime_max'' ''datetime'' ''value_as_string'',
        \<lambda>a. agg_metric a ''datetime_min'' ''datetime'' ''value_as_string'',
        \<lambda>a. agg a ''collection_frequency'' ''string'',
        \<lambda>a. agg a ''datetime_frequency'' ''datetime'',
        \<lambda>a. agg a ''cloud_cover_frequency'' ''numeric'',
        \<lambda>a. agg a ''grid_code_frequency'' ''string'',
        \<lambda>a. agg a ''platform_frequency'' ''string'',
        \<lambda>a. agg a ''grid_code_landsat_frequency'' ''string'',
        \<lambda>a. agg a ''sun_elevation_frequency'' ''string'',
        \<lambda>a. agg a ''sun_azimuth_frequency'' ''string'',
        \<lambda>a. agg a ''off_nadir_frequency'' ''string'']) (\<lambda>aggregations.
       Inr (JObj [(''aggregations'', JArr aggregations),
                  (''links'', JArr [link ''self'' ''application/json'' (endpoint @ ''/aggregate''),
                                    link ''root'' ''application/geo+json'' endpoint])]))))"

definition aggregate ::
  "host \<Rightarrow> obj \<Rightarrow> backend \<Rightarrow> string \<Rightarrow> jsval \<Rightarrow> (error + jsval) \<times> backend_call list" where
  "aggregate h queryParameters backend endpoint httpMethod =
     (let bbox = get_prop queryParameters ''bbox'';
          intersects = get_prop queryParameters ''intersects''
      in if truthy bbox \<and> truthy intersects then
           (Inl (ValidationError ''Expected bbox OR intersects, not both''), [])
         else
          (case aggregateParameters h queryParameters httpMethod of
             Inl e \<Rightarrow> (Inl e, [])
           | Inr searchParams \<Rightarrow>
               (bind (aggregateOrEmpty h backend searchParams) (aggregateDocument endpoint),
                [AggregateCall searchParams])))"

subsection \<open>One item\<close>

text \<open>
  What an operation returns when it reports a failure by returning an \<open>Error\<close> object
  instead of throwing it.
\<close>

datatype 'a returned = Value 'a | ErrorObject string

text \<open>
  \<open>getItem\<close>: the search is made with the query alone (no page, no limit) and a failure
  of it is not caught. A record is truthy, so the item is returned whenever there is one.
\<close>

definition getItem ::
  "host \<Rightarrow> jsval \<Rightarrow> jsval \<Rightarrow> backend \<Rightarrow> string \<Rightarrow> (error + obj returned) \<times> backend_call list" where
  "getItem h collectionId itemId backend endpoint =
     (let itemQuery = [(''collections'', JArr [collectionId]), (''id'', itemId)] in
      (case backend_search backend itemQuery JUndefined JUndefined of
         Inl err \<Rightarrow> Inl (Thrown err)
       | Inr response \<Rightarrow>
           bind (addItemLinks h (resp_results response) endpoint) (\<lambda>decorated.
             case decorated of
               it # _ \<Rightarrow> Inr (Value it)
             | [] \<Rightarrow> Inr (ErrorObject ''Item not found'')),
       [SearchCall itemQuery JUndefined JUndefined]))"

section \<open>Facts about numbers\<close>

lemma num_gt_not_le: "num_gt n (Fin 10000) \<Longrightarrow> n \<noteq> NaN \<and> \<not> num_le n (Fin 0)"
  by (cases n) (auto simp: num_gt_def num_le_def)

lemma num_ge_one_not_le: "num_le (Fin 1) n \<Longrightarrow> n \<noteq> NaN \<and> \<not> num_le n (Fin 0)"
  by (cases n) (auto simp: num_le_def)

lemma num_le_not_gt: "num_le n m \<Longrightarrow> \<not> num_gt n m"
  by (simp add: num_le_def num_gt_def)

lemma parseInt_decimal_20000: "parseInt h (JStr ''20000'') = Fin 20000"
  by (simp add: parseInt_def toDouble_def digits_val_def digit_val_def is_digit_def is_space_def)

lemma parseInt_decimal_25: "parseInt h (JStr ''25'') = Fin 25"
  by (simp add: parseInt_def toDouble_def digits_val_def digit_val_def is_digit_def is_space_def)

lemma parseInt_decimal_0: "parseInt h (JStr ''0'') = Fin 0"
  by (simp add: parseInt_def toDouble_def digits_val_def digit_val_def is_digit_def is_space_def)

lemma parseInt_letters: "parseInt h (JStr ''abc'') = NaN"
  by (simp add: parseInt_def is_digit_def is_space_def)

section \<open>The limit parameter\<close>

lemma parseInt_nbsp_42: "parseInt h (JStr (CHR 0xA0 # ''42'')) = Fin 42"
  by (simp add: parseInt_def toDouble_def digits_val_def digit_val_def is_digit_def is_space_def)

lemma try_parseInt_returns: "\<not> ToString_throws v \<Longrightarrow> try_parseInt h v = Inr (parseInt h v)"
  by (simp add: try_parseInt_def)

lemma try_parseInt_throws: "ToString_throws v \<Longrightarrow> try_parseInt h v = Inl TypeError"
  by (simp add: try_parseInt_def)

text \<open>
  Claim C4. For every supplied \<open>limit\<close> (every value but \<open>undefined\<close>): when \<open>parseInt\<close>
  throws on it, \<open>extractLimit\<close> fails with the validation error of the \<open>catch\<close>; otherwise,
  with \<open>n\<close> the value \<open>parseInt\<close> reads from it, \<open>extractLimit\<close> fails with the validation
  error of the range check when \<open>n\<close> is \<open>NaN\<close> or \<open>n \<le> 0\<close>, returns exactly 10000 when
  \<open>n > 10000\<close>, and returns \<open>n\<close> itself when \<open>1 \<le> n \<le> 10000\<close>.
\<close>

theorem extractLimit_clamps:
  assumes "get_prop params ''limit'' = v" and "v \<noteq> JUndefined"
  shows "(ToString_throws v \<longrightarrow>
            extractLimit h params = Inl (ValidationError ''Invalid limit value''))
       \<and> (\<not> ToString_throws v \<and> (parseInt h v = NaN \<or> num_le (parseInt h v) (Fin 0)) \<longrightarrow>
            extractLimit h params =
              Inl (ValidationError ''Invalid limit value, must be a number between 1 and 10000 inclusive''))
       \<and> (\<not> ToString_throws v \<and> num_gt (parseInt h v) (Fin 10000) \<longrightarrow>
            extractLimit h params = Inr (JNum (Fin 10000)))
       \<and> (\<not> ToString_throws v \<and> num_le (Fin 1) (parseInt h v) \<and> num_le (parseInt h v) (Fin 10000) \<longrightarrow>
            extractLimit h params = Inr (JNum (parseInt h v)))"
proof (intro conjI impI)
  assume "ToString_throws v"
  with assms show "extractLimit h params = Inl (ValidationError ''Invalid limit value'')"
    by (simp add: extractLimit_def Let_def try_parseInt_throws)
next
  assume "\<not> ToString_throws v \<and> (parseInt h v = NaN \<or> num_le (parseInt h v) (Fin 0))"
  with assms show "extractLimit h params =
      Inl (ValidationError ''Invalid limit value, must be a number between 1 and 10000 inclusive'')"
    by (auto simp: extractLimit_def Let_def try_parseInt_returns)
next
  assume a: "\<not> ToString_throws v \<and> num_gt (parseInt h v) (Fin 10000)"
  then have gt: "num_gt (parseInt h v) (Fin 10000)" by simp
  from num_gt_not_le [OF gt] a assms
  show "extractLimit h params = Inr (JNum (Fin 10000))"
    by (simp add: extractLimit_def Let_def try_parseInt_returns)
next
  assume rng: "\<not> ToString_throws v \<and> num_le (Fin 1) (parseInt h v) \<and> num_le (parseInt h v) (Fin 10000)"
  then have "parseInt h v \<noteq> NaN \<and> \<not> num_le (parseInt h v) (Fin 0)"
    and "\<not> num_gt (parseInt h v) (Fin 10000)"
    by (simp_all add: num_ge_one_not_le num_le_not_gt)
  with assms rng show "extractLimit h params = Inr (JNum (parseInt h v))"
    by (simp add: extractLimit_def Let_def try_parseInt_returns)
qed

theorem extractLimit_clamps_witness:
  "\<forall>h. extractLimit h [(''limit'', JStr ''20000'')] = Inr (JNum (Fin 10000))
     \<and> extractLimit h [(''limit'', JStr ''25'')] = Inr (JNum (Fin 25))
     \<and> extractLimit h [(''limit'', JStr (CHR 0xA0 # ''42''))] = Inr (JNum (Fin 42))
     \<and> extractLimit h [(''limit'', JStr ''0'')] =
         Inl (ValidationError ''Invalid limit value, must be a number between 1 and 10000 inclusive'')
     \<and> extractLimit h [(''limit'', JStr ''abc'')] =
         Inl (ValidationError ''Invalid limit value, must be a number between 1 and 10000 inclusive'')
     \<and> extractLimit h [(''limit'', JObj [(''toString'', JNum (Fin 1))])] =
         Inl (ValidationError ''Invalid limit value'')"
proof (intro allI conjI)
  fix h
  show "extractLimit h [(''limit'', JStr ''20000'')] = Inr (JNum (Fin 10000))"
    using extractLimit_clamps [of "[(''limit'', JStr ''20000'')]" "JStr ''20000''" h]
    by (simp add: get_prop_def parseInt_decimal_20000 num_gt_def)
  show "extractLimit h [(''limit'', JStr ''25'')] = Inr (JNum (Fin 25))"
    using extractLimit_clamps [of "[(''limit'', JStr ''25'')]" "JStr ''25''" h]
    by (simp add: get_prop_def parseInt_decimal_25 num_le_def)
  show "extractLimit h [(''limit'', JStr (CHR 0xA0 # ''42''))] = Inr (JNum (Fin 42))"
    using extractLimit_clamps [of "[(''limit'', JStr (CHR 0xA0 # ''42''))]" "JStr (CHR 0xA0 # ''42'')" h]
    by (simp add: get_prop_def parseInt_nbsp_42 num_le_def)
  show "extractLimit h [(''limit'', JStr ''0'')] =
      Inl (ValidationError ''Invalid limit value, must be a number between 1 and 10000 inclusive'')"
    using extractLimit_clamps [of "[(''limit'', JStr ''0'')]" "JStr ''0''" h]
    by (simp add: get_prop_def parseInt_decimal_0 num_le_def)
  show "extractLimit h [(''limit'', JStr ''abc'')] =
      Inl (ValidationError ''Invalid limit value, must be a number between 1 and 10000 inclusive'')"
    using extractLimit_clamps [of "[(''limit'', JStr ''abc'')]" "JStr ''abc''" h]
    by (simp add: get_prop_def parseInt_letters)
  show "extractLimit h [(''limit'', JObj [(''toString'', JNum (Fin 1))])] =
      Inl (ValidationError ''Invalid limit value'')"
    using extractLimit_clamps [of "[(''limit'', JObj [(''toString'', JNum (Fin 1))])]"
        "JObj [(''toString'', JNum (Fin 1))]" h]
    by (simp add: get_prop_def hasOwnProperty_def)
qed

section \<open>Splitting and joining\<close>

lemma js_split_nonempty: "js_split c s \<noteq> []"
  by (induction s) (auto split: list.splits)

lemma js_split_token_free: "t \<in> set (js_split c s) \<Longrightarrow> c \<notin> set t"
proof (induction s arbitrary: t)
  case Nil
  then show ?case by simp
next
  case (Cons x xs)
  show ?case
  proof (cases "x = c")
    case True
    with Cons show ?thesis by auto
  next
    case False
    with Cons js_split_nonempty [of c xs] show ?thesis
      by (auto split: list.splits)
  qed
qed

lemma js_split_no_sep: "c \<notin> set s \<Longrightarrow> js_split c s = [s]"
  by (induction s) auto

lemma js_split_append: "c \<notin> set s \<Longrightarrow> js_split c (s @ c # e) = s # js_split c e"
  by (induction s) auto

lemma js_split_join:
  "toks \<noteq> [] \<Longrightarrow> \<forall>t\<in>set toks. c \<notin> set t \<Longrightarrow> js_split c (js_join [c] toks) = toks"
proof (induction "[c]" toks rule: js_join.induct)
  case 1
  then show ?case by simp
next
  case (2 x)
  then show ?case by (simp add: js_split_no_sep)
next
  case (3 x y ys)
  then show ?case by (simp add: js_split_append)
qed

lemma js_join_nonempty: "toks \<noteq> [] \<Longrightarrow> \<forall>t\<in>set toks. t \<noteq> [] \<Longrightarrow> js_join sep toks \<noteq> []"
  by (induction sep toks rule: js_join.induct) auto

section \<open>The datetime interval\<close>

lemma match_template_split:
  "match_template p s = Some r \<Longrightarrow> CHR ''/'' \<notin> set p \<Longrightarrow>
     \<exists>pre. s = pre @ r \<and> length pre = length p \<and> CHR ''/'' \<notin> set pre"
proof (induction p s rule: match_template.induct)
  case (1 s)
  then show ?case by simp
next
  case (2 p ps)
  then show ?case by simp
next
  case (3 p ps c cs)
  from "3.prems" have ok: "(if p = CHR ''d'' then is_digit c else c = p)"
    and m: "match_template ps cs = Some r"
    by (auto split: if_splits)
  from "3.IH" [OF ok m] "3.prems"(2) obtain pre where
    pre: "cs = pre @ r" "length pre = length ps" "CHR ''/'' \<notin> set pre"
    by auto
  from ok "3.prems"(2) have "c \<noteq> CHR ''/''"
    by (auto simp: is_digit_def split: if_splits)
  with pre show ?case
    by (intro exI [of _ "c # pre"]) simp
qed

lemma digits_no_slash: "CHR ''/'' \<notin> set (takeWhile is_digit xs)"
proof
  assume "CHR ''/'' \<in> set (takeWhile is_digit xs)"
  then have "is_digit CHR ''/''" by (rule set_takeWhileD [THEN conjunct2])
  then show False by (simp add: is_digit_def)
qed

lemma zone_no_slash:
  assumes "z = ''Z'' \<or> match_template ''+dd:dd'' z = Some [] \<or> match_template ''-dd:dd'' z = Some []"
  shows "CHR ''/'' \<notin> set z"
  using assms
proof (elim disjE)
  assume "z = ''Z''" then show ?thesis by simp
next
  assume "match_template ''+dd:dd'' z = Some []"
  from match_template_split [OF this] show ?thesis by auto
next
  assume "match_template ''-dd:dd'' z = Some []"
  from match_template_split [OF this] show ?thesis by auto
qed

lemma RFC3339_shape:
  assumes "RFC3339_REGEX_test s"
  shows "CHR ''/'' \<notin> set s \<and> s \<noteq> [] \<and> s \<noteq> ''..''"
proof -
  from assms obtain r where m: "match_template ''dddd-dd-ddTdd:dd:dd'' s = Some r"
    and z: "(let z = (if r \<noteq> [] \<and> hd r = CHR ''.'' \<and> takeWhile is_digit (tl r) \<noteq> []
                    then dropWhile is_digit (tl r) else r)
           in z = ''Z'' \<or> match_template ''+dd:dd'' z = Some [] \<or> match_template ''-dd:dd'' z = Some [])"
    by (auto simp: RFC3339_REGEX_test_def split: option.splits)
  from match_template_split [OF m] obtain pre where
    pre: "s = pre @ r" "length pre = 19" "CHR ''/'' \<notin> set pre"
    by auto
  have r: "CHR ''/'' \<notin> set r"
  proof (cases "r \<noteq> [] \<and> hd r = CHR ''.'' \<and> takeWhile is_digit (tl r) \<noteq> []")
    case True
    with z have "CHR ''/'' \<notin> set (dropWhile is_digit (tl r))"
      by (simp add: zone_no_slash Let_def)
    moreover from True obtain ds where ds: "r = CHR ''.'' # ds"
      by (cases r) auto
    moreover have "set ds = set (takeWhile is_digit ds) \<union> set (dropWhile is_digit ds)"
      by (metis set_append takeWhile_dropWhile_id)
    ultimately show ?thesis
      using digits_no_slash [of ds] by auto
  next
    case False
    with z show ?thesis by (simp add: zone_no_slash Let_def)
  qed
  from pre have "19 \<le> length s" by simp
  then have "s \<noteq> [] \<and> s \<noteq> ''..''" by auto
  with pre r show ?thesis by auto
qed

lemma rfc3339ToDateTime_shape:
  "rfc3339ToDateTime h s = Inr a \<Longrightarrow> CHR ''/'' \<notin> set s \<and> s \<noteq> [] \<and> s \<noteq> ''..''"
  using RFC3339_shape [of s] by (auto simp: rfc3339ToDateTime_def split: if_splits)

lemma closed_end_timestamp:
  "rfc3339ToDateTime h s = Inr a \<Longrightarrow> closed_end h (Some s) = Inr (Some a)"
  using rfc3339ToDateTime_shape [of h s a] by (simp add: closed_end_def bind_def)

lemma closed_end_open: "closed_end h (Some ''..'') = Inr None" "closed_end h None = Inr None"
  by (simp_all add: closed_end_def)

lemma extractDatetime_parts:
  assumes "get_prop params ''datetime'' = JStr d" and "d \<noteq> []"
    and "js_split CHR ''/'' (toUpperCase d) = [S, E]"
    and "(S \<noteq> [] \<and> S \<noteq> ''..'') \<or> (E \<noteq> [] \<and> E \<noteq> ''..'')"
  shows "extractDatetime h params =
           bind (closed_end h (Some S)) (\<lambda>startDateTime.
           bind (closed_end h (Some E)) (\<lambda>endDateTime.
           bind (validateStartAndEndDatetimes startDateTime endDateTime) (\<lambda>_.
           Inr (JStr (toUpperCase d)))))"
  using assms by (auto simp: extractDatetime_def Let_def)

text \<open>
  Claim C3. For a \<open>datetime\<close> string: when it is \<open>s/e\<close> and both ends, uppercased, are
  timestamps that pass \<open>rfc3339ToDateTime\<close> with the end instant before the start
  instant, \<open>extractDatetime\<close> fails with the validation error; when it is \<open>../t\<close> or
  \<open>t/..\<close> with \<open>t\<close> such a timestamp, it succeeds and returns the whole string
  uppercased, the \<open>..\<close> still in it.
\<close>

theorem extractDatetime_intervals:
  assumes "get_prop params ''datetime'' = JStr d"
  shows "(\<forall>s e a b. d = s @ ''/'' @ e
            \<and> rfc3339ToDateTime h (toUpperCase s) = Inr a
            \<and> rfc3339ToDateTime h (toUpperCase e) = Inr b \<and> b < a \<longrightarrow>
            extractDatetime h params = Inl (ValidationError
              ''datetime value is invalid, start datetime must be before end datetime with interval''))
       \<and> (\<forall>t a. rfc3339ToDateTime h (toUpperCase t) = Inr a
            \<and> (d = ''../'' @ t \<or> d = t @ ''/..'') \<longrightarrow>
            extractDatetime h params = Inr (JStr (toUpperCase d)))"
proof (intro conjI allI impI)
  fix s e a b
  assume H: "d = s @ ''/'' @ e \<and> rfc3339ToDateTime h (toUpperCase s) = Inr a
     \<and> rfc3339ToDateTime h (toUpperCase e) = Inr b \<and> b < a"
  let ?S = "toUpperCase s" and ?E = "toUpperCase e"
  from H have S: "CHR ''/'' \<notin> set ?S \<and> ?S \<noteq> [] \<and> ?S \<noteq> ''..''"
    and E: "CHR ''/'' \<notin> set ?E \<and> ?E \<noteq> [] \<and> ?E \<noteq> ''..''"
    by (auto dest: rfc3339ToDateTime_shape)
  from H have up: "toUpperCase d = ?S @ CHR ''/'' # ?E"
    by (simp add: toUpperCase_def upper_char_def)
  have parts: "js_split CHR ''/'' (toUpperCase d) = [?S, ?E]"
    using S E by (simp add: up js_split_append js_split_no_sep)
  from H have "d \<noteq> []" by simp
  from extractDatetime_parts [OF assms this parts] S E H
  show "extractDatetime h params = Inl (ValidationError
      ''datetime value is invalid, start datetime must be before end datetime with interval'')"
    by (simp add: closed_end_timestamp bind_def validateStartAndEndDatetimes_def)
next
  fix t a
  assume H: "rfc3339ToDateTime h (toUpperCase t) = Inr a \<and> (d = ''../'' @ t \<or> d = t @ ''/..'')"
  let ?T = "toUpperCase t"
  from H have T: "CHR ''/'' \<notin> set ?T \<and> ?T \<noteq> [] \<and> ?T \<noteq> ''..''"
    by (auto dest: rfc3339ToDateTime_shape)
  from H have ne: "d \<noteq> []" by auto
  from H consider (open_start) "d = ''../'' @ t" | (open_end) "d = t @ ''/..''" by blast
  then show "extractDatetime h params = Inr (JStr (toUpperCase d))"
  proof cases
    case open_start
    then have up: "toUpperCase d = ''..'' @ CHR ''/'' # ?T"
      by (simp add: toUpperCase_def upper_char_def)
    have parts: "js_split CHR ''/'' (toUpperCase d) = [''..'', ?T]"
      unfolding up using T by (subst js_split_append) (simp_all add: js_split_no_sep)
    from extractDatetime_parts [OF assms ne parts] T H show ?thesis
      by (simp add: closed_end_timestamp closed_end_open bind_def validateStartAndEndDatetimes_def)
  next
    case open_end
    then have up: "toUpperCase d = ?T @ CHR ''/'' # ''..''"
      by (simp add: toUpperCase_def upper_char_def)
    have parts: "js_split CHR ''/'' (toUpperCase d) = [?T, ''..'']"
      unfolding up using T by (subst js_split_append) (simp_all add: js_split_no_sep)
    from extractDatetime_parts [OF assms ne parts] T H show ?thesis
      by (simp add: closed_end_timestamp closed_end_open bind_def validateStartAndEndDatetimes_def)
  qed
qed

lemma sample_timestamps:
  "rfc3339ToDateTime (h\<lparr>fromISO := \<lambda>s. Valid (if s = ''2020-01-01T00:00:00Z'' then 1577836800000 else 1546300800000)\<rparr>)
      ''2020-01-01T00:00:00Z'' = Inr 1577836800000"
  "rfc3339ToDateTime (h\<lparr>fromISO := \<lambda>s. Valid (if s = ''2020-01-01T00:00:00Z'' then 1577836800000 else 1546300800000)\<rparr>)
      ''2019-01-01T00:00:00Z'' = Inr 1546300800000"
  by (simp_all add: rfc3339ToDateTime_def RFC3339_REGEX_test_def is_digit_def)

lemma sample_uppercase:
  "toUpperCase ''2020-01-01t00:00:00z'' = ''2020-01-01T00:00:00Z''"
  "toUpperCase ''2019-01-01T00:00:00Z'' = ''2019-01-01T00:00:00Z''"
  "toUpperCase ''2020-01-01t00:00:00z/2019-01-01T00:00:00Z'' = ''2020-01-01T00:00:00Z/2019-01-01T00:00:00Z''"
  "toUpperCase ''../2020-01-01t00:00:00z'' = ''../2020-01-01T00:00:00Z''"
  "toUpperCase ''2020-01-01t00:00:00z/..'' = ''2020-01-01T00:00:00Z/..''"
  by (simp_all add: toUpperCase_def upper_char_def)

theorem extractDatetime_intervals_witness:
  "\<forall>h. extractDatetime
          (h\<lparr>fromISO := \<lambda>s. Valid (if s = ''2020-01-01T00:00:00Z'' then 1577836800000 else 1546300800000)\<rparr>)
          [(''datetime'', JStr ''2020-01-01t00:00:00z/2019-01-01T00:00:00Z'')]
        = Inl (ValidationError
            ''datetime value is invalid, start datetime must be before end datetime with interval'')
     \<and> extractDatetime
          (h\<lparr>fromISO := \<lambda>s. Valid (if s = ''2020-01-01T00:00:00Z'' then 1577836800000 else 1546300800000)\<rparr>)
          [(''datetime'', JStr ''../2020-01-01t00:00:00z'')]
        = Inr (JStr ''../2020-01-01T00:00:00Z'')
     \<and> extractDatetime
          (h\<lparr>fromISO := \<lambda>s. Valid (if s = ''2020-01-01T00:00:00Z'' then 1577836800000 else 1546300800000)\<rparr>)
          [(''datetime'', JStr ''2020-01-01t00:00:00z/..'')]
        = Inr (JStr ''2020-01-01T00:00:00Z/..'')"
proof (intro allI conjI)
  fix h :: host
  let ?h = "h\<lparr>fromISO := \<lambda>s. Valid (if s = ''2020-01-01T00:00:00Z'' then 1577836800000 else 1546300800000)\<rparr>"
  have a: "rfc3339ToDateTime ?h (toUpperCase ''2020-01-01t00:00:00z'') = Inr 1577836800000"
    unfolding sample_uppercase by (rule sample_timestamps)
  have b: "rfc3339ToDateTime ?h (toUpperCase ''2019-01-01T00:00:00Z'') = Inr 1546300800000"
    unfolding sample_uppercase by (rule sample_timestamps)
  have lt: "(1546300800000::int) < 1577836800000" by simp
  have g1: "get_prop [(''datetime'', JStr ''2020-01-01t00:00:00z/2019-01-01T00:00:00Z'')] ''datetime''
      = JStr ''2020-01-01t00:00:00z/2019-01-01T00:00:00Z''"
    by (simp add: get_prop_def)
  have d1: "''2020-01-01t00:00:00z/2019-01-01T00:00:00Z''
      = ''2020-01-01t00:00:00z'' @ ''/'' @ ''2019-01-01T00:00:00Z''"
    by simp
  from extractDatetime_intervals [OF g1, of ?h, THEN conjunct1, rule_format,
      OF conjI [OF d1 conjI [OF a conjI [OF b lt]]]]
  show "extractDatetime ?h [(''datetime'', JStr ''2020-01-01t00:00:00z/2019-01-01T00:00:00Z'')]
        = Inl (ValidationError
            ''datetime value is invalid, start datetime must be before end datetime with interval'')" .
  have g2: "get_prop [(''datetime'', JStr ''../2020-01-01t00:00:00z'')] ''datetime''
      = JStr ''../2020-01-01t00:00:00z''"
    by (simp add: get_prop_def)
  have d2: "''../2020-01-01t00:00:00z'' = ''../'' @ ''2020-01-01t00:00:00z''
      \<or> ''../2020-01-01t00:00:00z'' = ''2020-01-01t00:00:00z'' @ ''/..''"
    by simp
  from extractDatetime_intervals [OF g2, of ?h, THEN conjunct2, rule_format, OF conjI [OF a d2]]
  show "extractDatetime ?h [(''datetime'', JStr ''../2020-01-01t00:00:00z'')]
        = Inr (JStr ''../2020-01-01T00:00:00Z'')"
    unfolding sample_uppercase .
  have g3: "get_prop [(''datetime'', JStr ''2020-01-01t00:00:00z/..'')] ''datetime''
      = JStr ''2020-01-01t00:00:00z/..''"
    by (simp add: get_prop_def)
  have d3: "''2020-01-01t00:00:00z/..'' = ''../'' @ ''2020-01-01t00:00:00z''
      \<or> ''2020-01-01t00:00:00z/..'' = ''2020-01-01t00:00:00z'' @ ''/..''"
    by simp
  from extractDatetime_intervals [OF g3, of ?h, THEN conjunct2, rule_format, OF conjI [OF a d3]]
  show "extractDatetime ?h [(''datetime'', JStr ''2020-01-01t00:00:00z/..'')]
        = Inr (JStr ''2020-01-01T00:00:00Z/..'')"
    unfolding sample_uppercase .
qed

section \<open>The bounding box\<close>

lemma parseFloat_empty: "parseFloat h [] = NaN"
  by (simp add: parseFloat_def)

lemma filter_map_filter: "filter P (map f (filter (\<lambda>x. P (f x)) xs)) = filter P (map f xs)"
  by (induction xs) auto

lemma extractBbox_GET:
  assumes "get_prop params ''bbox'' = JStr s" and "s \<noteq> []"
    and "httpMethod = JStr ''GET'' \<or> httpMethod = JUndefined"
  shows "extractBbox h params httpMethod =
     checkBboxArray h (map JNum (filter (\<lambda>x. x \<noteq> NaN) (map (parseFloat h) (js_split CHR '','' s))))"
  using assms by (auto simp: extractBbox_def checkBboxArray_def bind_def Let_def)

lemma extractBbox_POST:
  assumes "get_prop params ''bbox'' = JArr xs"
  shows "extractBbox h params (JStr ''POST'') = checkBboxArray h xs"
  using assms by (auto simp: extractBbox_def checkBboxArray_def bind_def Let_def)

lemma checkBboxArray_numbers:
  "checkBboxArray h (map JNum comps) =
     (if length comps \<noteq> 4 \<and> length comps \<noteq> 6 then
        Inl (ValidationError ''Invalid bbox, must have 4 or 6 points'')
      else if (length comps = 4 \<and> num_gt (comps ! 1) (comps ! 3))
            \<or> (length comps = 6 \<and> num_gt (comps ! 1) (comps ! 4)) then
        Inl (ValidationError ''Invalid bbox, SW latitude must be less than NE latitude'')
      else Inr (extent_polygon (map JNum comps)))"
  by (auto simp: checkBboxArray_def js_gt_def)

lemma parseFloat_samples: "parseFloat h ''1'' = Fin 1" "parseFloat h ''2'' = Fin 2" "parseFloat h ''3'' = Fin 3" "parseFloat h ''4'' = Fin 4" "parseFloat h ''x'' = NaN"
  "parseFloat h ''0'' = Fin 0" "parseFloat h ''5'' = Fin 5"
  by (simp_all add: parseFloat_def toDouble_def digits_val_def digit_val_def is_digit_def is_space_def)

lemma parseFloat_nbsp: "parseFloat h [CHR 0xA0, CHR ''1''] = Fin 1" "parseFloat h [CHR 0xA0, CHR ''5''] = Fin 5"
  by (simp_all add: parseFloat_def toDouble_def digits_val_def digit_val_def is_digit_def is_space_def)

lemma extent_polygon_numbers:
  "4 \<le> length comps \<Longrightarrow>
     extent_polygon (map JNum comps) = box_polygon (comps ! 0) (comps ! 1) (comps ! 2) (comps ! 3)"
  by (auto simp: extent_polygon_def box_polygon_def element_def)

lemma box_polygon_eq:
  "box_polygon w s e n = box_polygon w' s' e' n' \<longleftrightarrow> w = w' \<and> s = s' \<and> e = e' \<and> n = n'"
  by (auto simp: box_polygon_def)

text \<open>
  The guard on the encoding: an array of four numbers with south below north is no
  polygon under GET, which is also the default method, and the same four numbers as a
  string are none under POST. Both are rejected as \<open>Invalid bbox\<close>.
\<close>

lemma extractBbox_other_encoding:
  "extractBbox h [(''bbox'', JArr [JNum (Fin 0), JNum (Fin 0), JNum (Fin 1), JNum (Fin 1)])] (JStr ''GET'')
     = Inl (ValidationError ''Invalid bbox'')"
  "extractBbox h [(''bbox'', JArr [JNum (Fin 0), JNum (Fin 0), JNum (Fin 1), JNum (Fin 1)])] JUndefined
     = Inl (ValidationError ''Invalid bbox'')"
  "extractBbox h [(''bbox'', JStr ''0,0,1,1'')] (JStr ''POST'')
     = Inl (ValidationError ''Invalid bbox'')"
  by (simp_all add: extractBbox_def get_prop_def bind_def)

text \<open>
  Claim C6. For every \<open>bbox\<close> supplied in the encoding of the request's method (a
  non-empty comma-separated string under GET, the default, its components the tokens
  \<open>parseFloat\<close> reads as numbers; an array of numbers under POST):

  \<^item> with exactly 4 components \<open>[west, south, east, north]\<close> and south \<open>\<le>\<close> north,
    \<open>extractBbox\<close> returns the closed polygon of that box;
  \<^item> with exactly 6 components \<open>[west, south, low, east, north, high]\<close> and south \<open>\<le>\<close>
    north (index 1 against 4), \<open>extractBbox\<close> returns the closed polygon built from the
    components 0 to 3, which has the lower elevation for its east and the east longitude
    for its north; this is the polygon of the box (west, south, east, north) only when
    the components 2, 3 and 4 are one and the same value;
  \<^item> with south \<open>>\<close> north it fails with the validation error;
  \<^item> with any other number of components it fails with the validation error.
\<close>

theorem extractBbox_six_components:
  assumes "((httpMethod = JStr ''GET'' \<or> httpMethod = JUndefined)
             \<and> get_prop params ''bbox'' = JStr s \<and> s \<noteq> []
             \<and> comps = filter (\<lambda>x. x \<noteq> NaN) (map (parseFloat h) (js_split CHR '','' s)))
         \<or> (httpMethod = JStr ''POST'' \<and> get_prop params ''bbox'' = JArr (map JNum comps))"
  shows "(length comps = 4 \<and> num_le (comps ! 1) (comps ! 3) \<longrightarrow>
          extractBbox h params httpMethod
            = Inr (box_polygon (comps ! 0) (comps ! 1) (comps ! 2) (comps ! 3)))
       \<and> (length comps = 6 \<and> num_le (comps ! 1) (comps ! 4) \<longrightarrow>
          extractBbox h params httpMethod
            = Inr (box_polygon (comps ! 0) (comps ! 1) (comps ! 2) (comps ! 3))
          \<and> (extractBbox h params httpMethod
               = Inr (box_polygon (comps ! 0) (comps ! 1) (comps ! 3) (comps ! 4))
             \<longleftrightarrow> comps ! 2 = comps ! 3 \<and> comps ! 3 = comps ! 4))
       \<and> ((length comps = 4 \<and> num_gt (comps ! 1) (comps ! 3))
            \<or> (length comps = 6 \<and> num_gt (comps ! 1) (comps ! 4)) \<longrightarrow>
          extractBbox h params httpMethod =
            Inl (ValidationError ''Invalid bbox, SW latitude must be less than NE latitude''))
       \<and> (length comps \<noteq> 4 \<and> length comps \<noteq> 6 \<longrightarrow>
          extractBbox h params httpMethod =
            Inl (ValidationError ''Invalid bbox, must have 4 or 6 points''))"
proof -
  from assms have L: "extractBbox h params httpMethod = checkBboxArray h (map JNum comps)"
    by (auto simp: extractBbox_GET extractBbox_POST)
  have four: "length comps = 4 \<and> num_le (comps ! 1) (comps ! 3) \<longrightarrow>
      extractBbox h params httpMethod
        = Inr (box_polygon (comps ! 0) (comps ! 1) (comps ! 2) (comps ! 3))"
    unfolding L by (simp add: checkBboxArray_numbers num_le_def num_gt_def extent_polygon_numbers)
  have six: "length comps = 6 \<and> num_le (comps ! 1) (comps ! 4) \<longrightarrow>
      extractBbox h params httpMethod
        = Inr (box_polygon (comps ! 0) (comps ! 1) (comps ! 2) (comps ! 3))"
    unfolding L by (simp add: checkBboxArray_numbers num_le_def num_gt_def extent_polygon_numbers)
  have slip: "length comps = 6 \<and> num_le (comps ! 1) (comps ! 4) \<longrightarrow>
      (extractBbox h params httpMethod
         = Inr (box_polygon (comps ! 0) (comps ! 1) (comps ! 3) (comps ! 4))
       \<longleftrightarrow> comps ! 2 = comps ! 3 \<and> comps ! 3 = comps ! 4)"
    using six by (auto simp: box_polygon_eq)
  have south: "(length comps = 4 \<and> num_gt (comps ! 1) (comps ! 3))
        \<or> (length comps = 6 \<and> num_gt (comps ! 1) (comps ! 4)) \<longrightarrow>
      extractBbox h params httpMethod =
        Inl (ValidationError ''Invalid bbox, SW latitude must be less than NE latitude'')"
    unfolding L by (auto simp: checkBboxArray_numbers)
  have count: "length comps \<noteq> 4 \<and> length comps \<noteq> 6 \<longrightarrow>
      extractBbox h params httpMethod =
        Inl (ValidationError ''Invalid bbox, must have 4 or 6 points'')"
    unfolding L by (simp add: checkBboxArray_numbers)
  from four six slip south count show ?thesis
    by blast
qed

text \<open>
  The six components \<open>[0, 1, 2, 3, 4, 5]\<close> are the box from (0, 1) to (3, 4) between the
  elevations 2 and 5; the polygon returned is the one of the box from (0, 1) to (2, 3).
\<close>

theorem extractBbox_six_components_witness:
  "\<forall>h. extractBbox h [(''bbox'', JArr [JNum (Fin 0), JNum (Fin 1), JNum (Fin 2), JNum (Fin 3), JNum (Fin 4), JNum (Fin 5)])]
           (JStr ''POST'')
         = Inr (JObj [(''type'', JStr ''Polygon''),
                      (''coordinates'',
                       JArr [JArr [JArr [JNum (Fin 0), JNum (Fin 1)],
                                   JArr [JNum (Fin 2), JNum (Fin 1)],
                                   JArr [JNum (Fin 2), JNum (Fin 3)],
                                   JArr [JNum (Fin 0), JNum (Fin 3)],
                                   JArr [JNum (Fin 0), JNum (Fin 1)]]])])
     \<and> extractBbox h [(''bbox'', JArr [JNum (Fin 0), JNum (Fin 1), JNum (Fin 2), JNum (Fin 3), JNum (Fin 4), JNum (Fin 5)])]
           (JStr ''POST'')
         \<noteq> Inr (box_polygon (Fin 0) (Fin 1) (Fin 3) (Fin 4))
     \<and> extractBbox h [(''bbox'', JStr ''0,0,5,5'')] (JStr ''GET'')
         = Inr (box_polygon (Fin 0) (Fin 0) (Fin 5) (Fin 5))
     \<and> extractBbox h [(''bbox'', JStr ''0,5,5,0'')] JUndefined
         = Inl (ValidationError ''Invalid bbox, SW latitude must be less than NE latitude'')
     \<and> extractBbox h [(''bbox'', JArr [JNum (Fin 1), JNum (Fin 2), JNum (Fin 3)])] (JStr ''POST'')
         = Inl (ValidationError ''Invalid bbox, must have 4 or 6 points'')"
proof (intro allI conjI)
  fix h
  let ?six = "[(''bbox'', JArr [JNum (Fin 0), JNum (Fin 1), JNum (Fin 2), JNum (Fin 3), JNum (Fin 4), JNum (Fin 5)])]"
  note six = extractBbox_six_components [of "JStr ''POST''" ?six "[]"
        "[Fin 0, Fin 1, Fin 2, Fin 3, Fin 4, Fin 5]" h]
  show "extractBbox h ?six (JStr ''POST'')
         = Inr (JObj [(''type'', JStr ''Polygon''),
                      (''coordinates'',
                       JArr [JArr [JArr [JNum (Fin 0), JNum (Fin 1)],
                                   JArr [JNum (Fin 2), JNum (Fin 1)],
                                   JArr [JNum (Fin 2), JNum (Fin 3)],
                                   JArr [JNum (Fin 0), JNum (Fin 3)],
                                   JArr [JNum (Fin 0), JNum (Fin 1)]]])])"
    using six by (simp add: get_prop_def num_le_def box_polygon_def)
  show "extractBbox h ?six (JStr ''POST'') \<noteq> Inr (box_polygon (Fin 0) (Fin 1) (Fin 3) (Fin 4))"
    using six by (simp add: get_prop_def num_le_def box_polygon_eq)
  show "extractBbox h [(''bbox'', JStr ''0,0,5,5'')] (JStr ''GET'')
         = Inr (box_polygon (Fin 0) (Fin 0) (Fin 5) (Fin 5))"
    using extractBbox_six_components [of "JStr ''GET''" "[(''bbox'', JStr ''0,0,5,5'')]" "''0,0,5,5''"
        "[Fin 0, Fin 0, Fin 5, Fin 5]" h]
    by (simp add: get_prop_def parseFloat_samples num_le_def)
  show "extractBbox h [(''bbox'', JStr ''0,5,5,0'')] JUndefined
         = Inl (ValidationError ''Invalid bbox, SW latitude must be less than NE latitude'')"
    using extractBbox_six_components [of JUndefined "[(''bbox'', JStr ''0,5,5,0'')]" "''0,5,5,0''"
        "[Fin 0, Fin 5, Fin 5, Fin 0]" h]
    by (simp add: get_prop_def parseFloat_samples num_gt_def)
  show "extractBbox h [(''bbox'', JArr [JNum (Fin 1), JNum (Fin 2), JNum (Fin 3)])] (JStr ''POST'')
         = Inl (ValidationError ''Invalid bbox, must have 4 or 6 points'')"
    using extractBbox_six_components [of "JStr ''POST''"
        "[(''bbox'', JArr [JNum (Fin 1), JNum (Fin 2), JNum (Fin 3)])]" "[]" "[Fin 1, Fin 2, Fin 3]" h]
    by (simp add: get_prop_def)
qed

text \<open>
  Claim C9. For a GET-style \<open>bbox\<close> string, the components that \<open>parseFloat\<close> does not
  read as a number are dropped before the count is checked: the count error is decided
  by the number of tokens that parse, and the result is the result for the string made of
  those tokens alone.
\<close>

theorem extractBbox_drops_unparsed:
  assumes "get_prop params ''bbox'' = JStr s" and "s \<noteq> []"
    and "httpMethod = JStr ''GET'' \<or> httpMethod = JUndefined"
  shows "(length (filter (\<lambda>t. parseFloat h t \<noteq> NaN) (js_split CHR '','' s)) \<noteq> 4
          \<and> length (filter (\<lambda>t. parseFloat h t \<noteq> NaN) (js_split CHR '','' s)) \<noteq> 6 \<longrightarrow>
          extractBbox h params httpMethod =
            Inl (ValidationError ''Invalid bbox, must have 4 or 6 points''))
      \<and> (filter (\<lambda>t. parseFloat h t \<noteq> NaN) (js_split CHR '','' s) \<noteq> [] \<longrightarrow>
          extractBbox h params httpMethod =
            extractBbox h [(''bbox'', JStr (js_join '',''
               (filter (\<lambda>t. parseFloat h t \<noteq> NaN) (js_split CHR '','' s))))] httpMethod)"
proof (intro conjI impI)
  let ?kept = "filter (\<lambda>t. parseFloat h t \<noteq> NaN) (js_split CHR '','' s)"
  let ?nums = "filter (\<lambda>x. x \<noteq> NaN) (map (parseFloat h) (js_split CHR '','' s))"
  have len: "length ?nums = length ?kept"
    by (simp add: filter_map comp_def)
  have L: "extractBbox h params httpMethod = checkBboxArray h (map JNum ?nums)"
    using assms by (rule extractBbox_GET)
  {
    assume "length ?kept \<noteq> 4 \<and> length ?kept \<noteq> 6"
    with len show "extractBbox h params httpMethod =
        Inl (ValidationError ''Invalid bbox, must have 4 or 6 points'')"
      unfolding L by (simp add: checkBboxArray_def)
  }
  {
    assume ne: "?kept \<noteq> []"
    have free: "\<forall>t\<in>set ?kept. CHR '','' \<notin> set t"
      by (auto dest: js_split_token_free)
    have "\<forall>t\<in>set ?kept. t \<noteq> []"
      by (auto simp: parseFloat_empty)
    with ne have j: "js_join '','' ?kept \<noteq> []"
      by (rule js_join_nonempty)
    have sp: "js_split CHR '','' (js_join '','' ?kept) = ?kept"
      using ne free by (rule js_split_join)
    have "extractBbox h [(''bbox'', JStr (js_join '','' ?kept))] httpMethod
        = checkBboxArray h (map JNum (filter (\<lambda>x. x \<noteq> NaN) (map (parseFloat h) ?kept)))"
      using extractBbox_GET [of "[(''bbox'', JStr (js_join '','' ?kept))]" "js_join '','' ?kept" httpMethod h]
        j assms(3) by (simp add: get_prop_def sp)
    also have "filter (\<lambda>x. x \<noteq> NaN) (map (parseFloat h) ?kept) = ?nums"
      by (rule filter_map_filter)
    finally show "extractBbox h params httpMethod =
        extractBbox h [(''bbox'', JStr (js_join '','' ?kept))] httpMethod"
      using L by simp
  }
qed

text \<open>
  A token that starts with a no-break space is read as the number that follows the
  space: it is kept, and counts.
\<close>

theorem extractBbox_drops_unparsed_witness:
  "\<forall>h. extractBbox h [(''bbox'', JStr ''1,2,3,4,x'')] (JStr ''GET'')
         = extractBbox h [(''bbox'', JStr ''1,2,3,4'')] (JStr ''GET'')
     \<and> extractBbox h [(''bbox'', JStr ''1,2,3,4'')] (JStr ''GET'')
         = Inr (extent_polygon [JNum (Fin 1), JNum (Fin 2), JNum (Fin 3), JNum (Fin 4)])
     \<and> extractBbox h [(''bbox'', JStr ''1,2,3,x'')] (JStr ''GET'')
         = Inl (ValidationError ''Invalid bbox, must have 4 or 6 points'')
     \<and> extractBbox h [(''bbox'', JStr (''1,2,3,4,'' @ [CHR 0xA0, CHR ''5'']))] (JStr ''GET'')
         = Inl (ValidationError ''Invalid bbox, must have 4 or 6 points'')
     \<and> extractBbox h [(''bbox'', JStr ([CHR 0xA0, CHR ''1''] @ '',2,3,4''))] (JStr ''GET'')
         = Inr (extent_polygon [JNum (Fin 1), JNum (Fin 2), JNum (Fin 3), JNum (Fin 4)])"
proof (intro allI conjI)
  fix h
  show "extractBbox h [(''bbox'', JStr ''1,2,3,4,x'')] (JStr ''GET'')
         = extractBbox h [(''bbox'', JStr ''1,2,3,4'')] (JStr ''GET'')"
    using extractBbox_drops_unparsed [of "[(''bbox'', JStr ''1,2,3,4,x'')]" "''1,2,3,4,x''" "JStr ''GET''" h]
    by (simp add: get_prop_def parseFloat_samples)
  show "extractBbox h [(''bbox'', JStr ''1,2,3,4'')] (JStr ''GET'')
         = Inr (extent_polygon [JNum (Fin 1), JNum (Fin 2), JNum (Fin 3), JNum (Fin 4)])"
    by (simp add: extractBbox_GET get_prop_def parseFloat_samples num_gt_def
        checkBboxArray_def js_gt_def)
  show "extractBbox h [(''bbox'', JStr ''1,2,3,x'')] (JStr ''GET'')
         = Inl (ValidationError ''Invalid bbox, must have 4 or 6 points'')"
    using extractBbox_drops_unparsed [of "[(''bbox'', JStr ''1,2,3,x'')]" "''1,2,3,x''" "JStr ''GET''" h]
    by (simp add: get_prop_def parseFloat_samples)
  show "extractBbox h [(''bbox'', JStr (''1,2,3,4,'' @ [CHR 0xA0, CHR ''5'']))] (JStr ''GET'')
         = Inl (ValidationError ''Invalid bbox, must have 4 or 6 points'')"
    using extractBbox_drops_unparsed [of "[(''bbox'', JStr (''1,2,3,4,'' @ [CHR 0xA0, CHR ''5'']))]"
        "''1,2,3,4,'' @ [CHR 0xA0, CHR ''5'']" "JStr ''GET''" h]
    by (simp add: get_prop_def parseFloat_samples parseFloat_nbsp)
  show "extractBbox h [(''bbox'', JStr ([CHR 0xA0, CHR ''1''] @ '',2,3,4''))] (JStr ''GET'')
         = Inr (extent_polygon [JNum (Fin 1), JNum (Fin 2), JNum (Fin 3), JNum (Fin 4)])"
    by (simp add: extractBbox_GET get_prop_def parseFloat_samples parseFloat_nbsp num_gt_def
        checkBboxArray_def js_gt_def)
qed

section \<open>The field projection\<close>

lemma extractFields_supplied:
  "hasOwnProperty params ''fields'' \<Longrightarrow> extractFields params \<noteq> Inr JUndefined"
  by (cases "get_prop params ''fields''") (auto simp: extractFields_def Let_def)

lemma extractFields_absent:
  "\<not> hasOwnProperty params ''fields'' \<Longrightarrow>
     extractFields params = (if hasOwnProperty params ''hasOwnProperty'' then Inl TypeError else Inr JUndefined)"
  by (simp add: extractFields_def hasOwnProperty_def get_prop_def)

lemma extractFields_falsy:
  "\<not> truthy (get_prop params ''fields'') \<Longrightarrow> hasOwnProperty params ''hasOwnProperty'' \<Longrightarrow>
     extractFields params = Inl TypeError"
  by (simp add: extractFields_def)

text \<open>
  Claim C8. Whatever the other parameters are: the string \<open>a,b,-c\<close> yields include
  \<open>[a, b]\<close> and exclude \<open>[c]\<close>, and a supplied empty object yields the empty object.
  Whenever \<open>fields\<close> is a key of the parameters the result is not \<open>undefined\<close>; whenever
  it is no key, the result is \<open>undefined\<close>, or the \<open>TypeError\<close> of the call of
  \<open>params.hasOwnProperty\<close> when the parameters have a key of that name: the supplied
  empty object and the absent parameter never give the same result.
\<close>

theorem extractFields_projection:
  "(get_prop params ''fields'' = JStr ''a,b,-c'' \<longrightarrow>
      extractFields params
        = Inr (JObj [(''include'', JArr [JStr ''a'', JStr ''b'']), (''exclude'', JArr [JStr ''c''])]))
   \<and> (get_prop params ''fields'' = JObj [] \<longrightarrow> extractFields params = Inr (JObj []))
   \<and> (hasOwnProperty params ''fields'' \<longrightarrow> extractFields params \<noteq> Inr JUndefined)
   \<and> (\<not> hasOwnProperty params ''fields'' \<longrightarrow>
        extractFields params
          = (if hasOwnProperty params ''hasOwnProperty'' then Inl TypeError else Inr JUndefined))
   \<and> (\<not> hasOwnProperty params ''fields'' \<longrightarrow> extractFields params \<noteq> Inr (JObj []))"
proof (intro conjI impI)
  assume "get_prop params ''fields'' = JStr ''a,b,-c''"
  then show "extractFields params
        = Inr (JObj [(''include'', JArr [JStr ''a'', JStr ''b'']), (''exclude'', JArr [JStr ''c''])])"
    by (simp add: extractFields_def)
next
  assume "get_prop params ''fields'' = JObj []"
  then show "extractFields params = Inr (JObj [])"
    by (simp add: extractFields_def)
next
  assume "hasOwnProperty params ''fields''"
  then show "extractFields params \<noteq> Inr JUndefined"
    by (rule extractFields_supplied)
next
  assume "\<not> hasOwnProperty params ''fields''"
  then show "extractFields params
          = (if hasOwnProperty params ''hasOwnProperty'' then Inl TypeError else Inr JUndefined)"
    by (rule extractFields_absent)
next
  assume "\<not> hasOwnProperty params ''fields''"
  then show "extractFields params \<noteq> Inr (JObj [])"
    by (simp add: extractFields_absent)
qed

theorem extractFields_projection_witness:
  "extractFields [(''fields'', JStr ''a,b,-c'')]
     = Inr (JObj [(''include'', JArr [JStr ''a'', JStr ''b'']), (''exclude'', JArr [JStr ''c''])])
   \<and> extractFields [(''fields'', JObj [])] = Inr (JObj [])
   \<and> extractFields [(''hasOwnProperty'', JStr ''1''), (''fields'', JObj [])] = Inr (JObj [])
   \<and> extractFields [(''fields'', JNull)] \<noteq> Inr JUndefined
   \<and> extractFields [] = Inr JUndefined
   \<and> extractFields [(''limit'', JStr ''5'')] = Inr JUndefined
   \<and> extractFields [(''hasOwnProperty'', JStr ''1'')] = Inl TypeError"
proof (intro conjI)
  show "extractFields [(''fields'', JStr ''a,b,-c'')]
     = Inr (JObj [(''include'', JArr [JStr ''a'', JStr ''b'']), (''exclude'', JArr [JStr ''c''])])"
    using extractFields_projection [of "[(''fields'', JStr ''a,b,-c'')]"]
    by (simp add: get_prop_def)
  show "extractFields [(''fields'', JObj [])] = Inr (JObj [])"
    using extractFields_projection [of "[(''fields'', JObj [])]"]
    by (simp add: get_prop_def)
  show "extractFields [(''hasOwnProperty'', JStr ''1''), (''fields'', JObj [])] = Inr (JObj [])"
    using extractFields_projection [of "[(''hasOwnProperty'', JStr ''1''), (''fields'', JObj [])]"]
    by (simp add: get_prop_def)
  show "extractFields [(''fields'', JNull)] \<noteq> Inr JUndefined"
    using extractFields_projection [of "[(''fields'', JNull)]"]
    by (simp add: hasOwnProperty_def)
  show "extractFields [] = Inr JUndefined"
    using extractFields_projection [of "[]"]
    by (simp add: hasOwnProperty_def)
  show "extractFields [(''limit'', JStr ''5'')] = Inr JUndefined"
    using extractFields_projection [of "[(''limit'', JStr ''5'')]"]
    by (simp add: hasOwnProperty_def)
  show "extractFields [(''hasOwnProperty'', JStr ''1'')] = Inl TypeError"
    using extractFields_projection [of "[(''hasOwnProperty'', JStr ''1'')]"]
    by (simp add: hasOwnProperty_def)
qed

section \<open>Errors and loops\<close>

lemma get_prop_set_prop: "get_prop (set_prop ob k v) k' = (if k' = k then v else get_prop ob k')"
  by (simp add: get_prop_def set_prop_def update_conv')

lemma bind_Inl: "bind m f = Inl e \<Longrightarrow> m = Inl e \<or> (\<exists>x. m = Inr x \<and> f x = Inl e)"
  by (cases m) (simp_all add: bind_def)

lemma bind_Inr: "bind m f = Inr y \<Longrightarrow> \<exists>x. m = Inr x \<and> f x = Inr y"
  by (cases m) (simp_all add: bind_def)

lemma traverse_Inr:
  "traverse f xs = Inr ys \<Longrightarrow> list_all2 (\<lambda>x y. f x = Inr y) xs ys"
proof (induction xs arbitrary: ys)
  case Nil
  then show ?case by simp
next
  case (Cons x xs)
  then show ?case by (auto split: sum.splits)
qed

lemma traverse_Inl:
  "traverse f xs = Inl e \<Longrightarrow> \<exists>x\<in>set xs. f x = Inl e"
proof (induction xs)
  case Nil
  then show ?case by simp
next
  case (Cons x xs)
  then show ?case by (auto split: sum.splits)
qed

lemma traverse_total:
  "\<forall>x\<in>set xs. \<exists>y. f x = Inr y \<Longrightarrow> \<exists>ys. traverse f xs = Inr ys"
proof (induction xs)
  case Nil
  then show ?case by simp
next
  case (Cons x xs)
  then obtain y ys where "f x = Inr y" "traverse f xs = Inr ys" by auto
  then show ?case by simp
qed

lemma read_member_error: "read_member v k = Inl e \<Longrightarrow> e = TypeError"
  by (auto simp: read_member_def split: if_splits)

section \<open>Parameters of sample requests\<close>

lemmas extract_defs = extractDatetime_def extractBbox_def extractIntersects_def extractSortby_def
  extractStacQuery_def extractFields_def extractIds_def extractCollectionIds_def extractIdList_def
  extractLimit_def extractPage_def hasOwnProperty_def try_parseInt_def

lemma searchParameters_none:
  "searchParameters h [] httpMethod = Inr ([], JUndefined, JUndefined, JUndefined)"
  by (simp add: searchParameters_def extract_defs get_prop_def bind_def pickBy_def js_or_def)

lemma searchParameters_sortby:
  "searchParameters h [(''sortby'', JArr rules)] httpMethod
     = Inr ([(''sortby'', JArr rules)], JArr rules, JUndefined, JUndefined)"
  by (simp add: searchParameters_def extract_defs get_prop_def bind_def pickBy_def js_or_def)

lemma searchParameters_limit_zero:
  "searchParameters h [(''limit'', JStr ''0'')] httpMethod
     = Inl (ValidationError ''Invalid limit value, must be a number between 1 and 10000 inclusive'')"
  by (simp add: searchParameters_def extract_defs get_prop_def bind_def pickBy_def js_or_def
      parseInt_decimal_0 num_le_def)

lemma aggregateParameters_none: "aggregateParameters h [] httpMethod = Inr []"
  by (simp add: aggregateParameters_def extract_defs get_prop_def bind_def pickBy_def js_or_def)

section \<open>The type of a decorated item\<close>

lemma addItemLinks_each_type:
  "addItemLinks_each h endpoint r = Inr r' \<Longrightarrow> get_prop r' ''type'' = JStr ''Feature''"
  by (auto simp: addItemLinks_each_def Let_def get_prop_set_prop split: jsval.splits)

lemma addItemLinks_each_error:
  "addItemLinks_each h endpoint r = Inl e \<Longrightarrow> e = TypeError"
  by (auto simp: addItemLinks_each_def Let_def split: jsval.splits)

lemma addItemLinks_each_total:
  "get_prop r ''links'' = JUndefined \<or> isArray (get_prop r ''links'')
     \<Longrightarrow> \<exists>r'. addItemLinks_each h endpoint r = Inr r'"
  by (auto simp: addItemLinks_each_def Let_def isArray_def split: jsval.splits)

lemma addItemLinks_types:
  assumes "addItemLinks h results endpoint = Inr out"
  shows "length out = length results \<and> (\<forall>it\<in>set out. get_prop it ''type'' = JStr ''Feature'')"
proof -
  from assms have rel: "list_all2 (\<lambda>x y. addItemLinks_each h endpoint x = Inr y) results out"
    by (simp add: addItemLinks_def traverse_Inr)
  then have "length out = length results"
    by (simp add: list_all2_lengthD)
  moreover have "\<forall>it\<in>set out. get_prop it ''type'' = JStr ''Feature''"
  proof
    fix it assume "it \<in> set out"
    with rel obtain r where "addItemLinks_each h endpoint r = Inr it"
      by (auto simp: list_all2_conv_all_nth in_set_conv_nth)
    then show "get_prop it ''type'' = JStr ''Feature''"
      by (rule addItemLinks_each_type)
  qed
  ultimately show ?thesis by simp
qed

lemma addItemLinks_error: "addItemLinks h results endpoint = Inl e \<Longrightarrow> e = TypeError"
  by (auto simp: addItemLinks_def dest!: traverse_Inl addItemLinks_each_error)

lemma addItemLinks_total:
  "\<forall>r\<in>set results. get_prop r ''links'' = JUndefined \<or> isArray (get_prop r ''links'')
     \<Longrightarrow> \<exists>out. addItemLinks h results endpoint = Inr out"
  unfolding addItemLinks_def by (rule traverse_total) (simp add: addItemLinks_each_total)

lemma searchDocument_Inr:
  assumes "searchDocument h collectionId searchParams bbox intersects endpoint newEndpoint httpMethod
             sortby limit esResponse = Inr response"
  shows "\<exists>items links. addItemLinks h (resp_results esResponse) endpoint = Inr items
           \<and> response = wrapResponseInFeatureCollection h (resp_context esResponse) items links"
proof -
  from bind_Inr [OF assms [unfolded searchDocument_def]] obtain paginationLinks where
    "bind (addItemLinks h (resp_results esResponse) endpoint) (\<lambda>items.
       Inr (wrapResponseInFeatureCollection h (resp_context esResponse) items
              (if truthy collectionId then
                 paginationLinks @
                   [link ''self'' ''application/json'' newEndpoint,
                    link ''root'' ''application/geo+json'' endpoint]
               else paginationLinks))) = Inr response"
    by blast
  from bind_Inr [OF this] show ?thesis by blast
qed

lemma searchItems_Inr:
  assumes "searchItems h collectionId queryParameters backend endpoint httpMethod = (Inr response, calls)"
  shows "\<exists>results ctx items links.
           addItemLinks h results endpoint = Inr items
         \<and> response = wrapResponseInFeatureCollection h ctx items links"
proof -
  from assms obtain searchParams bbox intersects newEndpoint sortby limit page where
    "bind (searchOrEmpty h backend searchParams page limit)
       (searchDocument h collectionId searchParams bbox intersects endpoint newEndpoint
          httpMethod sortby limit) = Inr response"
    unfolding searchItems_def Let_def
    by (auto split: if_splits sum.splits prod.splits)
  from bind_Inr [OF this] obtain esResponse where
    "searchDocument h collectionId searchParams bbox intersects endpoint newEndpoint httpMethod
       sortby limit esResponse = Inr response"
    by blast
  from searchDocument_Inr [OF this] show ?thesis by blast
qed

lemma getItem_Value:
  assumes "getItem h collectionId itemId backend endpoint = (Inr (Value it), calls)"
  shows "\<exists>results items. addItemLinks h results endpoint = Inr (it # items)"
proof -
  from assms have "\<exists>response :: search_response. bind (addItemLinks h (resp_results response) endpoint)
          (case_list (Inr (ErrorObject ''Item not found'')) (\<lambda>it _. Inr (Value it))) = Inr (Value it)"
    by (auto simp: getItem_def Let_def split: sum.splits)
  then obtain response :: search_response where
    b: "bind (addItemLinks h (resp_results response) endpoint)
          (case_list (Inr (ErrorObject ''Item not found'')) (\<lambda>it _. Inr (Value it))) = Inr (Value it)"
    by blast
  from bind_Inr [OF b] obtain decorated where
    d: "addItemLinks h (resp_results response) endpoint = Inr decorated"
    and v: "(case decorated of it # _ \<Rightarrow> Inr (Value it)
             | [] \<Rightarrow> Inr (ErrorObject ''Item not found'')) = (Inr (Value it) :: error + obj returned)"
    by blast
  from v obtain items where "decorated = it # items"
    by (cases decorated) auto
  with d show ?thesis by blast
qed

text \<open>
  Claim C10. Whenever \<open>addItemLinks\<close> returns, it returns as many records as it was given
  and each has \<open>type = "Feature"\<close>, whatever \<open>type\<close> it had before; it does return when
  every record has no \<open>links\<close> or an array of them. Hence every feature of a document
  \<open>searchItems\<close> returns, and every item \<open>getItem\<close> returns, has \<open>type = "Feature"\<close>.
\<close>

theorem decorated_items_are_features:
  "(\<forall>h results endpoint out. addItemLinks h results endpoint = Inr out \<longrightarrow>
       length out = length results \<and> (\<forall>it\<in>set out. get_prop it ''type'' = JStr ''Feature''))
   \<and> (\<forall>h results endpoint.
         (\<forall>r\<in>set results. get_prop r ''links'' = JUndefined \<or> isArray (get_prop r ''links'')) \<longrightarrow>
         (\<exists>out. addItemLinks h results endpoint = Inr out))
   \<and> (\<forall>h collectionId queryParameters backend endpoint httpMethod response calls.
         searchItems h collectionId queryParameters backend endpoint httpMethod = (Inr response, calls) \<longrightarrow>
         (\<exists>features. js_member response ''features'' = JArr (map JObj features)
            \<and> (\<forall>it\<in>set features. get_prop it ''type'' = JStr ''Feature'')))
   \<and> (\<forall>h collectionId itemId backend endpoint it calls.
         getItem h collectionId itemId backend endpoint = (Inr (Value it), calls) \<longrightarrow>
         get_prop it ''type'' = JStr ''Feature'')"
proof -
  have types: "\<forall>h results endpoint out. addItemLinks h results endpoint = Inr out \<longrightarrow>
       length out = length results \<and> (\<forall>it\<in>set out. get_prop it ''type'' = JStr ''Feature'')"
    using addItemLinks_types by blast
  have total: "\<forall>h results endpoint.
         (\<forall>r\<in>set results. get_prop r ''links'' = JUndefined \<or> isArray (get_prop r ''links'')) \<longrightarrow>
         (\<exists>out. addItemLinks h results endpoint = Inr out)"
    using addItemLinks_total by blast
  have search: "\<forall>h collectionId queryParameters backend endpoint httpMethod response calls.
         searchItems h collectionId queryParameters backend endpoint httpMethod = (Inr response, calls) \<longrightarrow>
         (\<exists>features. js_member response ''features'' = JArr (map JObj features)
            \<and> (\<forall>it\<in>set features. get_prop it ''type'' = JStr ''Feature''))"
  proof (intro allI impI)
    fix h collectionId queryParameters backend endpoint httpMethod response calls
    assume "searchItems h collectionId queryParameters backend endpoint httpMethod = (Inr response, calls)"
    from searchItems_Inr [OF this] obtain results ctx items links where
      dec: "addItemLinks h results endpoint = Inr items"
      and resp: "response = wrapResponseInFeatureCollection h ctx items links"
      by blast
    from resp have "js_member response ''features'' = JArr (map JObj items)"
      by (simp add: wrapResponseInFeatureCollection_def js_member_def get_prop_def)
    with addItemLinks_types [OF dec]
    show "\<exists>features. js_member response ''features'' = JArr (map JObj features)
              \<and> (\<forall>it\<in>set features. get_prop it ''type'' = JStr ''Feature'')"
      by blast
  qed
  have item: "\<forall>h collectionId itemId backend endpoint it calls.
         getItem h collectionId itemId backend endpoint = (Inr (Value it), calls) \<longrightarrow>
         get_prop it ''type'' = JStr ''Feature''"
  proof (intro allI impI)
    fix h collectionId itemId backend endpoint it calls
    assume "getItem h collectionId itemId backend endpoint = (Inr (Value it), calls)"
    from getItem_Value [OF this] obtain results items where
      "addItemLinks h results endpoint = Inr (it # items)"
      by blast
    from addItemLinks_types [OF this] show "get_prop it ''type'' = JStr ''Feature''"
      by simp
  qed
  from types total search item show ?thesis by (intro conjI)
qed

theorem decorated_items_are_features_witness:
  "\<forall>h. (\<exists>out. addItemLinks h [[(''type'', JStr ''Item''), (''id'', JStr ''a''), (''collection'', JStr ''c'')]]
                  ''http://x'' = Inr out
             \<and> length out = 1 \<and> get_prop (hd out) ''type'' = JStr ''Feature'')
     \<and> (\<exists>it calls.
           getItem h (JStr ''c'') (JStr ''a'')
             \<lparr>backend_search = \<lambda>q p l. Inr \<lparr>resp_results =
                  [[(''type'', JStr ''Item''), (''id'', JStr ''a''), (''collection'', JStr ''c''),
                    (''links'', JArr [])]], resp_context = []\<rparr>,
              backend_aggregate = \<lambda>q. Inr JNull\<rparr> ''http://x'' = (Inr (Value it), calls)
           \<and> get_prop it ''type'' = JStr ''Feature'')
     \<and> (\<exists>response calls features.
           searchItems h JUndefined []
             \<lparr>backend_search = \<lambda>q p l. Inr \<lparr>resp_results =
                  [[(''type'', JStr ''Item''), (''id'', JStr ''a''), (''collection'', JStr ''c'')]],
                  resp_context = []\<rparr>,
              backend_aggregate = \<lambda>q. Inr JNull\<rparr> ''http://x'' (JStr ''POST'') = (Inr response, calls)
           \<and> js_member response ''features'' = JArr (map JObj features)
           \<and> features \<noteq> []
           \<and> list_all (\<lambda>it. get_prop it ''type'' = JStr ''Feature'') features)"
proof (intro allI conjI)
  fix h
  let ?item = "[(''type'', JStr ''Item''), (''id'', JStr ''a''), (''collection'', JStr ''c'')]"
  have "\<exists>out. addItemLinks h [?item] ''http://x'' = Inr out"
    by (rule decorated_items_are_features [THEN conjunct2, THEN conjunct1, rule_format])
      (simp add: get_prop_def)
  then obtain out where out: "addItemLinks h [?item] ''http://x'' = Inr out"
    by blast
  from decorated_items_are_features [THEN conjunct1, rule_format, OF out]
  have "length out = 1" and "\<And>it. it \<in> set out \<Longrightarrow> get_prop it ''type'' = JStr ''Feature''"
    by simp_all
  then have "length out = 1 \<and> get_prop (hd out) ''type'' = JStr ''Feature''"
    by (cases out) auto
  with out show "\<exists>out. addItemLinks h [?item] ''http://x'' = Inr out
      \<and> length out = 1 \<and> get_prop (hd out) ''type'' = JStr ''Feature''"
    by blast
next
  fix h
  let ?backend = "\<lparr>backend_search = \<lambda>q p l. Inr \<lparr>resp_results =
                  [[(''type'', JStr ''Item''), (''id'', JStr ''a''), (''collection'', JStr ''c''),
                    (''links'', JArr [])]], resp_context = []\<rparr>,
              backend_aggregate = \<lambda>q. Inr JNull\<rparr>"
  have "\<exists>it calls. getItem h (JStr ''c'') (JStr ''a'') ?backend ''http://x'' = (Inr (Value it), calls)"
    by (simp add: getItem_def bind_def addItemLinks_def addItemLinks_each_def get_prop_def)
  then obtain it calls where
    ev: "getItem h (JStr ''c'') (JStr ''a'') ?backend ''http://x'' = (Inr (Value it), calls)"
    by blast
  from decorated_items_are_features [THEN conjunct2, THEN conjunct2, THEN conjunct2, rule_format, OF ev]
  have "get_prop it ''type'' = JStr ''Feature''" .
  with ev show "\<exists>it calls. getItem h (JStr ''c'') (JStr ''a'') ?backend ''http://x'' = (Inr (Value it), calls)
      \<and> get_prop it ''type'' = JStr ''Feature''"
    by blast
next
  fix h
  let ?backend = "\<lparr>backend_search = \<lambda>q p l. Inr \<lparr>resp_results =
                  [[(''type'', JStr ''Item''), (''id'', JStr ''a''), (''collection'', JStr ''c'')]],
                  resp_context = []\<rparr>,
              backend_aggregate = \<lambda>q. Inr JNull\<rparr>"
  have "\<exists>response calls. searchItems h JUndefined [] ?backend ''http://x'' (JStr ''POST'')
      = (Inr response, calls) \<and> (\<exists>x. js_member response ''features'' = JArr [x])"
    by (simp add: searchItems_def searchParameters_none get_prop_def searchOrEmpty_def bind_def
        searchDocument_def buildPaginationLinks_def addItemLinks_def addItemLinks_each_def
        wrapResponseInFeatureCollection_def js_member_def)
  then obtain response calls x where
    ev: "searchItems h JUndefined [] ?backend ''http://x'' (JStr ''POST'') = (Inr response, calls)"
    and one: "js_member response ''features'' = JArr [x]"
    by blast
  from decorated_items_are_features [THEN conjunct2, THEN conjunct2, THEN conjunct1, rule_format, OF ev]
  obtain features where
    f: "js_member response ''features'' = JArr (map JObj features)"
    and t: "\<forall>it\<in>set features. get_prop it ''type'' = JStr ''Feature''"
    by blast
  from f one have "features \<noteq> []" by auto
  with ev f t show "\<exists>response calls features.
      searchItems h JUndefined [] ?backend ''http://x'' (JStr ''POST'') = (Inr response, calls)
      \<and> js_member response ''features'' = JArr (map JObj features)
      \<and> features \<noteq> []
      \<and> list_all (\<lambda>it. get_prop it ''type'' = JStr ''Feature'') features"
    by (auto simp: list_all_iff)
qed

section \<open>Item links\<close>

lemma addItemLinks_each_no_links:
  "get_prop r ''links'' = JUndefined \<Longrightarrow>
     addItemLinks_each h endpoint r = Inr (set_prop r ''type'' (JStr ''Feature''))"
  by (simp add: addItemLinks_each_def)

lemma addItemLinks_each_links:
  "get_prop r ''links'' = JArr ls \<Longrightarrow>
     addItemLinks_each h endpoint r =
       Inr (set_prop (set_prop r ''links''
              (JArr (item_self_link h endpoint r # ls @ item_more_links h endpoint r)))
            ''type'' (JStr ''Feature''))"
  by (simp add: addItemLinks_each_def)

lemma addItemLinks_no_links:
  "\<forall>r\<in>set results. get_prop r ''links'' = JUndefined \<Longrightarrow>
     addItemLinks h results endpoint = Inr (map (\<lambda>r. set_prop r ''type'' (JStr ''Feature'')) results)"
  unfolding addItemLinks_def
  by (induction results) (simp_all add: addItemLinks_each_no_links)

lemma addItemLinks_links:
  "\<forall>r\<in>set results. isArray (get_prop r ''links'') \<Longrightarrow>
     \<exists>out. addItemLinks h results endpoint = Inr out \<and> length out = length results
       \<and> (\<forall>i<length results. \<exists>ls. get_prop (results ! i) ''links'' = JArr ls
             \<and> get_prop (out ! i) ''links''
                 = JArr (item_self_link h endpoint (results ! i) # ls
                          @ item_more_links h endpoint (results ! i)))"
  unfolding addItemLinks_def
proof (induction results)
  case Nil
  then show ?case by simp
next
  case (Cons r rs)
  then obtain out where out: "traverse (addItemLinks_each h endpoint) rs = Inr out"
    "length out = length rs"
    and rest: "\<forall>i<length rs. \<exists>ls. get_prop (rs ! i) ''links'' = JArr ls
             \<and> get_prop (out ! i) ''links''
                 = JArr (item_self_link h endpoint (rs ! i) # ls @ item_more_links h endpoint (rs ! i))"
    by auto
  from Cons.prems obtain ls where ls: "get_prop r ''links'' = JArr ls"
    by (auto simp: isArray_def split: jsval.splits)
  let ?r' = "set_prop (set_prop r ''links''
              (JArr (item_self_link h endpoint r # ls @ item_more_links h endpoint r)))
            ''type'' (JStr ''Feature'')"
  have r': "get_prop ?r' ''links'' = JArr (item_self_link h endpoint r # ls @ item_more_links h endpoint r)"
    by (simp add: get_prop_def set_prop_def update_conv')
  have "traverse (addItemLinks_each h endpoint) (r # rs) = Inr (?r' # out)"
    by (simp add: addItemLinks_each_links [OF ls] out)
  moreover have "\<forall>i<length (r # rs). \<exists>ls. get_prop ((r # rs) ! i) ''links'' = JArr ls
             \<and> get_prop ((?r' # out) ! i) ''links''
                 = JArr (item_self_link h endpoint ((r # rs) ! i) # ls
                          @ item_more_links h endpoint ((r # rs) ! i))"
  proof (intro allI impI)
    fix i assume "i < length (r # rs)"
    then show "\<exists>ls. get_prop ((r # rs) ! i) ''links'' = JArr ls
             \<and> get_prop ((?r' # out) ! i) ''links''
                 = JArr (item_self_link h endpoint ((r # rs) ! i) # ls
                          @ item_more_links h endpoint ((r # rs) ! i))"
      using ls r' rest by (cases i) auto
  qed
  ultimately show ?case using out(2) by simp
qed

lemma no_links_after_type: "get_prop r ''links'' = JUndefined \<Longrightarrow> get_prop (set_prop r ''type'' v) ''links'' = JUndefined"
  by (simp add: get_prop_def set_prop_def update_conv')

text \<open>
  Claim C7, on the code. Records with no \<open>links\<close> come back from \<open>addItemLinks\<close> with
  their \<open>type\<close> set and still with no \<open>links\<close>: the five links went into an array that
  was never stored in the record. Records with an array of links get the self link first,
  then the links they had, then parent, collection, root and thumbnail, in that order.
\<close>

theorem addItemLinks_needs_links_array:
  "(\<forall>h results endpoint.
      (\<forall>r\<in>set results. get_prop r ''links'' = JUndefined) \<longrightarrow>
      addItemLinks h results endpoint = Inr (map (\<lambda>r. set_prop r ''type'' (JStr ''Feature'')) results)
      \<and> (\<forall>r\<in>set results. get_prop (set_prop r ''type'' (JStr ''Feature'')) ''links'' = JUndefined))
   \<and> (\<forall>h results endpoint.
      (\<forall>r\<in>set results. isArray (get_prop r ''links'')) \<longrightarrow>
      (\<exists>out. addItemLinks h results endpoint = Inr out \<and> length out = length results
         \<and> (\<forall>i<length results. \<exists>ls. get_prop (results ! i) ''links'' = JArr ls
               \<and> get_prop (out ! i) ''links''
                   = JArr (item_self_link h endpoint (results ! i) # ls
                            @ item_more_links h endpoint (results ! i)))))"
proof -
  have missing: "\<forall>h results endpoint.
      (\<forall>r\<in>set results. get_prop r ''links'' = JUndefined) \<longrightarrow>
      addItemLinks h results endpoint = Inr (map (\<lambda>r. set_prop r ''type'' (JStr ''Feature'')) results)
      \<and> (\<forall>r\<in>set results. get_prop (set_prop r ''type'' (JStr ''Feature'')) ''links'' = JUndefined)"
    by (simp add: addItemLinks_no_links no_links_after_type)
  have present: "\<forall>h results endpoint.
      (\<forall>r\<in>set results. isArray (get_prop r ''links'')) \<longrightarrow>
      (\<exists>out. addItemLinks h results endpoint = Inr out \<and> length out = length results
         \<and> (\<forall>i<length results. \<exists>ls. get_prop (results ! i) ''links'' = JArr ls
               \<and> get_prop (out ! i) ''links''
                   = JArr (item_self_link h endpoint (results ! i) # ls
                            @ item_more_links h endpoint (results ! i))))"
    using addItemLinks_links by blast
  from missing present show ?thesis by (intro conjI)
qed

text \<open>
  The two cases on sample records, and the sibling \<open>addCollectionLinks\<close>, which stores the
  fresh array and so links a record that had none.
\<close>

theorem addItemLinks_needs_links_array_witness:
  "\<forall>h. addItemLinks h [[(''id'', JStr ''a''), (''collection'', JStr ''c'')]] ''http://x''
         = Inr [[(''id'', JStr ''a''), (''collection'', JStr ''c''), (''type'', JStr ''Feature'')]]
     \<and> (\<exists>out. addItemLinks h [[(''id'', JStr ''a''), (''collection'', JStr ''c''), (''links'', JArr [])]]
                  ''http://x'' = Inr out
           \<and> get_prop (out ! 0) ''links''
               = JArr [link ''self'' ''application/geo+json'' ''http://x/collections/c/items/a'',
                       link ''parent'' ''application/json'' ''http://x/collections/c'',
                       link ''collection'' ''application/json'' ''http://x/collections/c'',
                       link ''root'' ''application/geo+json'' ''http://x'',
                       JObj [(''rel'', JStr ''thumbnail''),
                             (''href'', JStr ''http://x/collections/c/items/a/thumbnail'')]])
     \<and> addCollectionLinks h [[(''id'', JStr ''c'')]] ''http://x''
         = Inr [[(''id'', JStr ''c''),
                 (''links'', JArr
                    [link ''self'' ''application/geo+json'' ''http://x/collections/c'',
                     link ''parent'' ''application/geo+json'' ''http://x'',
                     link ''root'' ''application/geo+json'' ''http://x'',
                     link ''items'' ''application/geo+json'' ''http://x/collections/c/items''])]]"
proof (intro allI conjI)
  fix h
  let ?bare = "[(''id'', JStr ''a''), (''collection'', JStr ''c'')]"
  have "\<forall>r\<in>set [?bare]. get_prop r ''links'' = JUndefined"
    by (simp add: get_prop_def)
  with addItemLinks_needs_links_array
  have "addItemLinks h [?bare] ''http://x''
      = Inr (map (\<lambda>r. set_prop r ''type'' (JStr ''Feature'')) [?bare])"
    by blast
  then show "addItemLinks h [?bare] ''http://x''
         = Inr [[(''id'', JStr ''a''), (''collection'', JStr ''c''), (''type'', JStr ''Feature'')]]"
    by (simp add: set_prop_def)
next
  fix h
  let ?linked = "[(''id'', JStr ''a''), (''collection'', JStr ''c''), (''links'', JArr [])]"
  have "\<forall>r\<in>set [?linked]. isArray (get_prop r ''links'')"
    by (simp add: get_prop_def isArray_def)
  with addItemLinks_needs_links_array [THEN conjunct2]
  have "\<exists>out. addItemLinks h [?linked] ''http://x'' = Inr out \<and> length out = length [?linked]
         \<and> (\<forall>i<length [?linked]. \<exists>ls. get_prop ([?linked] ! i) ''links'' = JArr ls
               \<and> get_prop (out ! i) ''links''
                   = JArr (item_self_link h ''http://x'' ([?linked] ! i) # ls
                            @ item_more_links h ''http://x'' ([?linked] ! i)))"
    by blast
  then obtain out where out: "addItemLinks h [?linked] ''http://x'' = Inr out"
    and each: "\<forall>i<length [?linked]. \<exists>ls. get_prop ([?linked] ! i) ''links'' = JArr ls
               \<and> get_prop (out ! i) ''links''
                   = JArr (item_self_link h ''http://x'' ([?linked] ! i) # ls
                            @ item_more_links h ''http://x'' ([?linked] ! i))"
    by blast
  from each have "get_prop (out ! 0) ''links''
      = JArr (item_self_link h ''http://x'' ?linked # [] @ item_more_links h ''http://x'' ?linked)"
    by (simp add: get_prop_def)
  then have "get_prop (out ! 0) ''links''
               = JArr [link ''self'' ''application/geo+json'' ''http://x/collections/c/items/a'',
                       link ''parent'' ''application/json'' ''http://x/collections/c'',
                       link ''collection'' ''application/json'' ''http://x/collections/c'',
                       link ''root'' ''application/geo+json'' ''http://x'',
                       JObj [(''rel'', JStr ''thumbnail''),
                             (''href'', JStr ''http://x/collections/c/items/a/thumbnail'')]]"
    by (simp add: item_self_link_def item_more_links_def get_prop_def)
  with out show "\<exists>out. addItemLinks h [?linked] ''http://x'' = Inr out
           \<and> get_prop (out ! 0) ''links''
               = JArr [link ''self'' ''application/geo+json'' ''http://x/collections/c/items/a'',
                       link ''parent'' ''application/json'' ''http://x/collections/c'',
                       link ''collection'' ''application/json'' ''http://x/collections/c'',
                       link ''root'' ''application/geo+json'' ''http://x'',
                       JObj [(''rel'', JStr ''thumbnail''),
                             (''href'', JStr ''http://x/collections/c/items/a/thumbnail'')]]"
    by blast
next
  fix h
  show "addCollectionLinks h [[(''id'', JStr ''c'')]] ''http://x''
         = Inr [[(''id'', JStr ''c''),
                 (''links'', JArr
                    [link ''self'' ''application/geo+json'' ''http://x/collections/c'',
                     link ''parent'' ''application/geo+json'' ''http://x'',
                     link ''root'' ''application/geo+json'' ''http://x'',
                     link ''items'' ''application/geo+json'' ''http://x/collections/c/items''])]]"
    by (simp add: addCollectionLinks_def addCollectionLinks_each_def get_prop_def set_prop_def)
qed

section \<open>The next cursor\<close>

lemma string_of_nat_0: "string_of_nat 0 = ''0''"
  by (simp add: string_of_nat.simps)

lemma string_of_nat_42: "string_of_nat 42 = ''42''"
  by (simp add: string_of_nat.simps)

lemma cursor_sorted:
  "buildPaginationLinks h JUndefined [(''sortby'', JArr [JObj [(''field'', JStr ''id''), (''direction'', JStr ''asc'')]])]
      JUndefined JUndefined ''http://x/search'' (JStr ''POST'')
      (JArr [JObj [(''field'', JStr ''id''), (''direction'', JStr ''asc'')]])
      [[(''id'', JNum (Fin 42)), (''collection'', JStr ''c'')]]
   = Inr [JObj [(''rel'', JStr ''next''), (''title'', JStr ''Next page of Items''),
            (''method'', JStr ''POST''), (''href'', JStr ''http://x/search''), (''merge'', JBool False),
            (''body'', JObj [(''sortby'', JArr [JObj [(''field'', JStr ''id''), (''direction'', JStr ''asc'')]])])]]"
  by (simp add: buildPaginationLinks_def object_keys_def string_of_nat_0 getNested_def is_word_char_def
      get_prop_def array_join_def assign_def set_prop_def pickBy_def)

lemma cursor_default:
  "buildPaginationLinks h JUndefined [] JUndefined JUndefined ''http://x/search'' (JStr ''POST'') JUndefined
      [[(''id'', JNum (Fin 42)), (''collection'', JStr ''c''),
        (''properties'', JObj [(''datetime'', JStr ''2020-01-01T00:00:00Z'')])]]
   = Inr [JObj [(''rel'', JStr ''next''), (''title'', JStr ''Next page of Items''),
            (''method'', JStr ''POST''), (''href'', JStr ''http://x/search''), (''merge'', JBool False),
            (''body'', JObj [(''next'', JStr ''2020-01-01T00:00:00Z,42,c'')])]]"
  by (simp add: buildPaginationLinks_def getNested_def is_word_char_def
      get_prop_def array_join_def assign_def set_prop_def pickBy_def hasOwnProperty_def js_member_def
      numberToString_def string_of_nat_42)

lemma buildPaginationLinks_empty:
  "buildPaginationLinks h limit parameters bbox intersects endpoint httpMethod sortby [] = Inr []"
  by (simp add: buildPaginationLinks_def)

text \<open>
  Claim C1, at the spec's own example. With the sort rules \<open>[{field: "id", direction:
  "asc"}]\<close> and a page whose last item has \<open>id = 42\<close>, \<open>searchItems\<close> builds one next
  link, but its body carries no \<open>next\<close>: the cursor keys are \<open>Object.keys\<close> of the rule
  array, that is the index \<open>0\<close>, the item has no such key, the cursor is the empty
  string, and \<open>pickBy\<close> drops it. With no sort requested the cursor is read at the three
  default paths and joined with commas, and an empty page gives no link.
\<close>

theorem next_cursor_of_sorted_page:
  "\<forall>h. searchItems h JUndefined
         [(''sortby'', JArr [JObj [(''field'', JStr ''id''), (''direction'', JStr ''asc'')]])]
         \<lparr>backend_search = \<lambda>q p l. Inr \<lparr>resp_results = [[(''id'', JNum (Fin 42)), (''collection'', JStr ''c'')]],
              resp_context = [(''matched'', JNum (Fin 1)), (''returned'', JNum (Fin 1))]\<rparr>,
          backend_aggregate = \<lambda>q. Inr JNull\<rparr>
         ''http://x'' (JStr ''POST'')
       = (Inr (JObj
            [(''type'', JStr ''FeatureCollection''),
             (''stac_version'', JStr (env_or h ''STAC_VERSION'' ''1.0.0'')),
             (''stac_extensions'', JArr []),
             (''context'', JObj [(''matched'', JNum (Fin 1)), (''returned'', JNum (Fin 1))]),
             (''numberMatched'', JNum (Fin 1)),
             (''numberReturned'', JNum (Fin 1)),
             (''features'', JArr [JObj [(''id'', JNum (Fin 42)), (''collection'', JStr ''c''),
                                        (''type'', JStr ''Feature'')]]),
             (''links'', JArr [JObj
                [(''rel'', JStr ''next''), (''title'', JStr ''Next page of Items''),
                 (''method'', JStr ''POST''), (''href'', JStr ''http://x/search''),
                 (''merge'', JBool False),
                 (''body'', JObj [(''sortby'',
                    JArr [JObj [(''field'', JStr ''id''), (''direction'', JStr ''asc'')]])])]])]),
          [SearchCall [(''sortby'', JArr [JObj [(''field'', JStr ''id''), (''direction'', JStr ''asc'')]])]
             JUndefined JUndefined])
     \<and> buildPaginationLinks h JUndefined [] JUndefined JUndefined ''http://x/search'' (JStr ''POST'')
         JUndefined
         [[(''id'', JNum (Fin 42)), (''collection'', JStr ''c''),
           (''properties'', JObj [(''datetime'', JStr ''2020-01-01T00:00:00Z'')])]]
       = Inr [JObj [(''rel'', JStr ''next''), (''title'', JStr ''Next page of Items''),
                (''method'', JStr ''POST''), (''href'', JStr ''http://x/search''),
                (''merge'', JBool False),
                (''body'', JObj [(''next'', JStr ''2020-01-01T00:00:00Z,42,c'')])]]
     \<and> buildPaginationLinks h JUndefined [] JUndefined JUndefined ''http://x/search'' (JStr ''POST'')
         JUndefined [] = Inr []"
proof (intro allI conjI)
  fix h
  show "searchItems h JUndefined
         [(''sortby'', JArr [JObj [(''field'', JStr ''id''), (''direction'', JStr ''asc'')]])]
         \<lparr>backend_search = \<lambda>q p l. Inr \<lparr>resp_results = [[(''id'', JNum (Fin 42)), (''collection'', JStr ''c'')]],
              resp_context = [(''matched'', JNum (Fin 1)), (''returned'', JNum (Fin 1))]\<rparr>,
          backend_aggregate = \<lambda>q. Inr JNull\<rparr>
         ''http://x'' (JStr ''POST'')
       = (Inr (JObj
            [(''type'', JStr ''FeatureCollection''),
             (''stac_version'', JStr (env_or h ''STAC_VERSION'' ''1.0.0'')),
             (''stac_extensions'', JArr []),
             (''context'', JObj [(''matched'', JNum (Fin 1)), (''returned'', JNum (Fin 1))]),
             (''numberMatched'', JNum (Fin 1)),
             (''numberReturned'', JNum (Fin 1)),
             (''features'', JArr [JObj [(''id'', JNum (Fin 42)), (''collection'', JStr ''c''),
                                        (''type'', JStr ''Feature'')]]),
             (''links'', JArr [JObj
                [(''rel'', JStr ''next''), (''title'', JStr ''Next page of Items''),
                 (''method'', JStr ''POST''), (''href'', JStr ''http://x/search''),
                 (''merge'', JBool False),
                 (''body'', JObj [(''sortby'',
                    JArr [JObj [(''field'', JStr ''id''), (''direction'', JStr ''asc'')]])])]])]),
          [SearchCall [(''sortby'', JArr [JObj [(''field'', JStr ''id''), (''direction'', JStr ''asc'')]])]
             JUndefined JUndefined])"
    by (simp add: searchItems_def searchParameters_sortby get_prop_def searchOrEmpty_def bind_def
        searchDocument_def cursor_sorted addItemLinks_def addItemLinks_each_def set_prop_def
        wrapResponseInFeatureCollection_def)
qed (simp_all add: cursor_default buildPaginationLinks_empty)

section \<open>Where errors come from\<close>

lemma sortField_error: "sortField h rule = Inl e \<Longrightarrow> e = TypeError"
  unfolding sortField_def
  by (auto dest!: bind_Inl dest: read_member_error split: if_splits)

lemma dictToURI_pair_error: "dictToURI_pair h pv = Inl e \<Longrightarrow> e = TypeError"
  unfolding dictToURI_pair_def Let_def
  by (auto dest!: bind_Inl traverse_Inl dest: sortField_error split: jsval.splits if_splits)

lemma dictToURI_error: "dictToURI h dict = Inl e \<Longrightarrow> e = TypeError"
  unfolding dictToURI_def
  by (auto dest!: bind_Inl traverse_Inl dest: dictToURI_pair_error)

lemma buildPaginationLinks_error:
  "buildPaginationLinks h limit parameters bbox intersects endpoint httpMethod sortby items = Inl e
     \<Longrightarrow> e = TypeError"
  unfolding buildPaginationLinks_def Let_def
  by (auto dest!: bind_Inl dest: dictToURI_error split: if_splits)

lemma searchDocument_error:
  "searchDocument h collectionId searchParams bbox intersects endpoint newEndpoint httpMethod
       sortby limit esResponse = Inl e \<Longrightarrow> e = TypeError"
  unfolding searchDocument_def
  by (auto dest!: bind_Inl dest: buildPaginationLinks_error addItemLinks_error)

lemma searchOrEmpty_error:
  "searchOrEmpty h backend searchParams page limit = Inl e \<Longrightarrow> \<exists>err. e = Thrown err"
  by (auto simp: searchOrEmpty_def split: sum.splits if_splits)

lemma searchItems_validation_before_call:
  assumes "searchItems h collectionId queryParameters backend endpoint httpMethod
             = (Inl (ValidationError msg), calls)"
  shows "calls = []"
proof (rule ccontr)
  assume "calls \<noteq> []"
  with assms obtain searchParams bbox intersects newEndpoint sortby limit page where
    "bind (searchOrEmpty h backend searchParams page limit)
       (searchDocument h collectionId searchParams bbox intersects endpoint newEndpoint
          httpMethod sortby limit) = Inl (ValidationError msg)"
    unfolding searchItems_def Let_def
    by (auto split: if_splits sum.splits prod.splits)
  from bind_Inl [OF this] show False
    by (auto dest: searchOrEmpty_error searchDocument_error)
qed

lemma agg_bucket_error: "agg_bucket dataType bucket = Inl e \<Longrightarrow> e = TypeError"
  unfolding agg_bucket_def
  by (auto dest!: bind_Inl dest: read_member_error)

lemma iterate_error: "iterate v = Inl e \<Longrightarrow> e = TypeError"
  by (auto simp: iterate_def split: jsval.splits)

lemma agg_error: "agg esAggs name dataType = Inl e \<Longrightarrow> e = TypeError"
  unfolding agg_def
  by (auto dest!: bind_Inl traverse_Inl dest: read_member_error iterate_error agg_bucket_error)

lemma agg_metric_error: "agg_metric esAggs name dataType key = Inl e \<Longrightarrow> e = TypeError"
  unfolding agg_metric_def
  by (auto dest!: bind_Inl dest: read_member_error)

lemma aggregateDocument_error: "aggregateDocument endpoint esResponse = Inl e \<Longrightarrow> e = TypeError"
  unfolding aggregateDocument_def
  by (auto simp del: traverse.simps dest!: bind_Inl traverse_Inl
      dest: read_member_error agg_error agg_metric_error)

lemma aggregateOrEmpty_error:
  "aggregateOrEmpty h backend searchParams = Inl e \<Longrightarrow> \<exists>err. e = Thrown err"
  by (auto simp: aggregateOrEmpty_def split: sum.splits if_splits)

lemma aggregate_validation_before_call:
  assumes "aggregate h queryParameters backend endpoint httpMethod = (Inl (ValidationError msg), calls)"
  shows "calls = []"
proof (rule ccontr)
  assume "calls \<noteq> []"
  with assms obtain searchParams where
    "bind (aggregateOrEmpty h backend searchParams) (aggregateDocument endpoint)
       = Inl (ValidationError msg)"
    unfolding aggregate_def Let_def
    by (auto split: if_splits sum.splits)
  from bind_Inl [OF this] show False
    by (auto dest: aggregateOrEmpty_error aggregateDocument_error)
qed

section \<open>Validation comes before the backend\<close>

text \<open>
  Claim C5. When \<open>bbox\<close> and \<open>intersects\<close> are both supplied (both truthy, which is how
  the module reads a parameter as supplied), \<open>searchItems\<close> and \<open>aggregate\<close> fail with the
  "not both" validation error, whatever the two values are, and no call of the backend is
  made. Whenever either operation fails with a validation error, no call of the backend
  was made.
\<close>

theorem bbox_and_intersects_rejected:
  "(truthy (get_prop queryParameters ''bbox'') \<and> truthy (get_prop queryParameters ''intersects'') \<longrightarrow>
      searchItems h collectionId queryParameters backend endpoint httpMethod
        = (Inl (ValidationError ''Expected bbox OR intersects, not both''), [])
    \<and> aggregate h queryParameters backend endpoint httpMethod
        = (Inl (ValidationError ''Expected bbox OR intersects, not both''), []))
   \<and> (\<forall>msg calls. searchItems h collectionId queryParameters backend endpoint httpMethod
          = (Inl (ValidationError msg), calls) \<longrightarrow> calls = [])
   \<and> (\<forall>msg calls. aggregate h queryParameters backend endpoint httpMethod
          = (Inl (ValidationError msg), calls) \<longrightarrow> calls = [])"
proof (intro conjI allI impI)
  assume both: "truthy (get_prop queryParameters ''bbox'') \<and> truthy (get_prop queryParameters ''intersects'')"
  then show "searchItems h collectionId queryParameters backend endpoint httpMethod
        = (Inl (ValidationError ''Expected bbox OR intersects, not both''), [])"
    by (simp add: searchItems_def)
  from both show "aggregate h queryParameters backend endpoint httpMethod
        = (Inl (ValidationError ''Expected bbox OR intersects, not both''), [])"
    by (simp add: aggregate_def)
next
  fix msg calls
  assume "searchItems h collectionId queryParameters backend endpoint httpMethod
          = (Inl (ValidationError msg), calls)"
  then show "calls = []" by (rule searchItems_validation_before_call)
next
  fix msg calls
  assume "aggregate h queryParameters backend endpoint httpMethod = (Inl (ValidationError msg), calls)"
  then show "calls = []" by (rule aggregate_validation_before_call)
qed

theorem bbox_and_intersects_rejected_witness:
  "\<forall>h backend.
       searchItems h JUndefined
          [(''bbox'', JStr ''0,0,1,1''), (''intersects'', JObj [(''type'', JStr ''Point'')])]
          backend ''http://x'' (JStr ''GET'')
        = (Inl (ValidationError ''Expected bbox OR intersects, not both''), [])
     \<and> aggregate h
          [(''bbox'', JArr [JStr ''not'', JStr ''a'', JStr ''box'']), (''intersects'', JStr ''{'')]
          backend ''http://x'' (JStr ''POST'')
        = (Inl (ValidationError ''Expected bbox OR intersects, not both''), [])
     \<and> fst (searchItems h JUndefined [(''limit'', JStr ''0'')] backend ''http://x'' (JStr ''GET''))
        = Inl (ValidationError ''Invalid limit value, must be a number between 1 and 10000 inclusive'')
     \<and> snd (searchItems h JUndefined [(''limit'', JStr ''0'')] backend ''http://x'' (JStr ''GET'')) = []"
proof (intro allI conjI)
  fix h :: host and backend :: backend
  show "searchItems h JUndefined
          [(''bbox'', JStr ''0,0,1,1''), (''intersects'', JObj [(''type'', JStr ''Point'')])]
          backend ''http://x'' (JStr ''GET'')
        = (Inl (ValidationError ''Expected bbox OR intersects, not both''), [])"
    using bbox_and_intersects_rejected
      [of "[(''bbox'', JStr ''0,0,1,1''), (''intersects'', JObj [(''type'', JStr ''Point'')])]"
          h JUndefined backend "''http://x''" "JStr ''GET''"]
    by (simp add: get_prop_def)
  show "aggregate h
          [(''bbox'', JArr [JStr ''not'', JStr ''a'', JStr ''box'']), (''intersects'', JStr ''{'')]
          backend ''http://x'' (JStr ''POST'')
        = (Inl (ValidationError ''Expected bbox OR intersects, not both''), [])"
    using bbox_and_intersects_rejected
      [of "[(''bbox'', JArr [JStr ''not'', JStr ''a'', JStr ''box'']), (''intersects'', JStr ''{'')]"
          h JUndefined backend "''http://x''" "JStr ''POST''"]
    by (simp add: get_prop_def)
  let ?run = "searchItems h JUndefined [(''limit'', JStr ''0'')] backend ''http://x'' (JStr ''GET'')"
  show f: "fst ?run
        = Inl (ValidationError ''Invalid limit value, must be a number between 1 and 10000 inclusive'')"
    by (simp add: searchItems_def get_prop_def searchParameters_limit_zero)
  have "?run = (fst ?run, snd ?run)" by simp
  with f have "?run = (Inl (ValidationError
      ''Invalid limit value, must be a number between 1 and 10000 inclusive''), snd ?run)"
    by simp
  with bbox_and_intersects_rejected
      [of "[(''limit'', JStr ''0'')]" h JUndefined backend "''http://x''" "JStr ''GET''"]
  show "snd ?run = []"
    by blast
qed

section \<open>A missing index\<close>

lemma aggregateDocument_empty: "aggregateDocument endpoint (JObj []) = Inl TypeError"
  by (simp add: aggregateDocument_def read_member_def js_member_def get_prop_def bind_def)

lemma aggregate_index_missing:
  assumes "aggregate h queryParameters backend endpoint httpMethod = (r, [AggregateCall searchParams])"
    and "backend_aggregate backend searchParams = Inl err" and "isIndexNotFoundError h err"
  shows "r = Inl TypeError"
proof -
  from assms(1) have "r = bind (aggregateOrEmpty h backend searchParams) (aggregateDocument endpoint)"
    unfolding aggregate_def Let_def
    by (auto split: if_splits sum.splits)
  with assms(2,3) show ?thesis
    by (simp add: aggregateOrEmpty_def bind_def aggregateDocument_empty)
qed

lemma searchItems_index_missing:
  assumes "searchItems h collectionId queryParameters backend endpoint httpMethod
             = (r, [SearchCall searchParams page limit])"
    and "backend_search backend searchParams page limit = Inl err" and "isIndexNotFoundError h err"
  shows "\<exists>links. r = Inr (wrapResponseInFeatureCollection h
            [(''matched'', JNum (Fin 0)), (''returned'', JNum (Fin 0)), (''limit'', limit)] [] links)"
proof -
  from assms(1) obtain bbox intersects newEndpoint sortby where
    "r = bind (searchOrEmpty h backend searchParams page limit)
       (searchDocument h collectionId searchParams bbox intersects endpoint newEndpoint
          httpMethod sortby limit)"
    unfolding searchItems_def Let_def
    by (auto split: if_splits sum.splits prod.splits)
  with assms(2,3) have "r = Inr (wrapResponseInFeatureCollection h
      [(''matched'', JNum (Fin 0)), (''returned'', JNum (Fin 0)), (''limit'', limit)] []
      (if truthy collectionId then
         [] @ [link ''self'' ''application/json'' newEndpoint,
               link ''root'' ''application/geo+json'' endpoint]
       else []))"
    by (simp add: searchOrEmpty_def bind_def searchDocument_def buildPaginationLinks_empty
        addItemLinks_def)
  then show ?thesis by blast
qed

text \<open>
  Claim C2, on the code. When the one call of the backend fails with an index-missing
  error, \<open>searchItems\<close> returns the feature collection of an empty page, with
  \<open>matched = 0\<close> and \<open>returned = 0\<close> in its context; \<open>aggregate\<close> replaces the response
  by \<open>{}\<close>, reads \<open>aggregations\<close> from its missing body, and throws a \<open>TypeError\<close>.
\<close>

theorem index_missing_outcomes:
  assumes "isIndexNotFoundError h err"
  shows "(searchItems h collectionId queryParameters backend endpoint httpMethod
            = (r, [SearchCall searchParams page limit])
          \<and> backend_search backend searchParams page limit = Inl err \<longrightarrow>
          (\<exists>links. r = Inr (wrapResponseInFeatureCollection h
              [(''matched'', JNum (Fin 0)), (''returned'', JNum (Fin 0)), (''limit'', limit)] [] links)))
       \<and> (aggregate h queryParameters' backend endpoint httpMethod = (r', [AggregateCall searchParams'])
          \<and> backend_aggregate backend searchParams' = Inl err \<longrightarrow>
          r' = Inl TypeError)"
  using assms searchItems_index_missing aggregate_index_missing by blast

theorem index_missing_outcomes_witness:
  "\<forall>h. searchItems (h\<lparr>isIndexNotFoundError := \<lambda>e. e = JStr ''index_not_found_exception''\<rparr>)
          JUndefined []
          \<lparr>backend_search = \<lambda>q p l. Inl (JStr ''index_not_found_exception''),
           backend_aggregate = \<lambda>q. Inl (JStr ''index_not_found_exception'')\<rparr>
          ''http://x'' (JStr ''GET'')
        = (Inr (JObj
             [(''type'', JStr ''FeatureCollection''),
              (''stac_version'', JStr (env_or h ''STAC_VERSION'' ''1.0.0'')),
              (''stac_extensions'', JArr []),
              (''context'', JObj [(''matched'', JNum (Fin 0)), (''returned'', JNum (Fin 0)),
                                  (''limit'', JUndefined)]),
              (''numberMatched'', JNum (Fin 0)),
              (''numberReturned'', JNum (Fin 0)),
              (''features'', JArr []),
              (''links'', JArr [])]),
           [SearchCall [] JUndefined JUndefined])
     \<and> aggregate (h\<lparr>isIndexNotFoundError := \<lambda>e. e = JStr ''index_not_found_exception''\<rparr>)
          []
          \<lparr>backend_search = \<lambda>q p l. Inl (JStr ''index_not_found_exception''),
           backend_aggregate = \<lambda>q. Inl (JStr ''index_not_found_exception'')\<rparr>
          ''http://x'' (JStr ''GET'')
        = (Inl TypeError, [AggregateCall []])"
proof (intro allI conjI)
  fix h :: host
  let ?h = "h\<lparr>isIndexNotFoundError := \<lambda>e. e = JStr ''index_not_found_exception''\<rparr>"
  let ?backend = "\<lparr>backend_search = \<lambda>q p l. Inl (JStr ''index_not_found_exception''),
           backend_aggregate = \<lambda>q. Inl (JStr ''index_not_found_exception'')\<rparr>"
  have missing: "isIndexNotFoundError ?h (JStr ''index_not_found_exception'')"
    by simp
  let ?s = "searchItems ?h JUndefined [] ?backend ''http://x'' (JStr ''GET'')"
  have "snd ?s = [SearchCall [] JUndefined JUndefined]"
    by (simp add: searchItems_def get_prop_def searchParameters_none)
  then have "?s = (fst ?s, [SearchCall [] JUndefined JUndefined])"
    by (metis prod.collapse)
  with index_missing_outcomes [where h = ?h and err = "JStr ''index_not_found_exception''"
      and collectionId = JUndefined and queryParameters = "[]" and backend = ?backend
      and endpoint = "''http://x''" and httpMethod = "JStr ''GET''" and r = "fst ?s"
      and searchParams = "[]" and page = JUndefined and limit = JUndefined
      and queryParameters' = "[]" and r' = "Inl TypeError" and searchParams' = "[]", OF missing]
  obtain links where
    r: "fst ?s = Inr (wrapResponseInFeatureCollection ?h
          [(''matched'', JNum (Fin 0)), (''returned'', JNum (Fin 0)), (''limit'', JUndefined)] [] links)"
    by auto
  have "fst ?s = Inr (wrapResponseInFeatureCollection ?h
          [(''matched'', JNum (Fin 0)), (''returned'', JNum (Fin 0)), (''limit'', JUndefined)] [] [])"
    by (simp add: searchItems_def get_prop_def searchParameters_none searchOrEmpty_def bind_def
        searchDocument_def buildPaginationLinks_empty addItemLinks_def)
  with r \<open>?s = (fst ?s, [SearchCall [] JUndefined JUndefined])\<close>
  show "?s = (Inr (JObj
             [(''type'', JStr ''FeatureCollection''),
              (''stac_version'', JStr (env_or h ''STAC_VERSION'' ''1.0.0'')),
              (''stac_extensions'', JArr []),
              (''context'', JObj [(''matched'', JNum (Fin 0)), (''returned'', JNum (Fin 0)),
                                  (''limit'', JUndefined)]),
              (''numberMatched'', JNum (Fin 0)),
              (''numberReturned'', JNum (Fin 0)),
              (''features'', JArr []),
              (''links'', JArr [])]),
           [SearchCall [] JUndefined JUndefined])"
    by (simp add: wrapResponseInFeatureCollection_def get_prop_def env_or_def)
  let ?a = "aggregate ?h [] ?backend ''http://x'' (JStr ''GET'')"
  have "snd ?a = [AggregateCall []]"
    by (simp add: aggregate_def get_prop_def aggregateParameters_none)
  then have a: "?a = (fst ?a, [AggregateCall []])"
    by (metis prod.collapse)
  with index_missing_outcomes [where h = ?h and err = "JStr ''index_not_found_exception''"
      and collectionId = JUndefined and queryParameters = "[]" and backend = ?backend
      and endpoint = "''http://x''" and httpMethod = "JStr ''GET''" and r = "Inl TypeError"
      and searchParams = "[]" and page = JUndefined and limit = JUndefined
      and queryParameters' = "[]" and r' = "fst ?a" and searchParams' = "[]", OF missing]
  have "fst ?a = Inl TypeError"
    by simp
  with a show "?a = (Inl TypeError, [AggregateCall []])"
    by simp
qed

end
